theory Spec2Isabelle
  imports Main "HOL-Library.Word" "HOL-Library.AList" "HOL-Library.Sublist"
begin

unbundle bit_operations_syntax

section \<open>Python values shared by the models\<close>

text \<open>
  The exceptions the modelled functions raise. A raise is the value \<open>Inl e\<close> of the
  result type \<open>error + 'a\<close>; \<open>PdfReadError\<close> and \<open>PdfStreamError\<close> carry the message
  the source gives them.
\<close>

datatype error =
    PdfReadError string
  | PdfStreamError string
  | NotImplementedError string
  | KeyError
  | IndexError
  | TypeError
  | ValueError
  | AttributeError

text \<open>A \<open>bytes\<close> object is a list of 8-bit words; \<open>data[a:b]\<close> for \<open>0 \<le> a \<le> b\<close> is \<open>slice\<close>.\<close>

type_synonym byte = "8 word"

definition slice :: "'a list \<Rightarrow> nat \<Rightarrow> nat \<Rightarrow> 'a list" where
  "slice xs a b = take (b - a) (drop a xs)"

section \<open>filters.py: RunLengthDecode\<close>

text \<open>
  \<^verbatim>\<open>RunLengthDecode.decode\<close>: the \<^verbatim>\<open>while i < len(data)\<close> loop with its index
  \<open>i\<close> and the bytearray \<open>decoded\<close>. The slice \<^verbatim>\<open>data[i+1:i+length+2]\<close> never
  raises (it is cut at the end of the data); \<^verbatim>\<open>data[i+1]\<close> raises IndexError past
  the end, which the source turns into PdfStreamError.
\<close>

function RunLengthDecode_loop :: "byte list \<Rightarrow> nat \<Rightarrow> byte list \<Rightarrow> error + byte list" where
  "RunLengthDecode_loop data i decoded =
     (if i < length data then
        (let len = unat (data ! i) in
         if len = 128 then Inr decoded
         else if len < 128 then
           RunLengthDecode_loop data (i + len + 2) (decoded @ slice data (i + 1) (i + len + 2))
         else if i + 1 < length data then
           RunLengthDecode_loop data (i + 2) (decoded @ replicate (257 - len) (data ! (i + 1)))
         else Inl (PdfStreamError ''Invalid run length encoded data''))
      else Inr decoded)"
  by pat_completeness auto
termination
  by (relation "measure (\<lambda>(data, i, decoded). length data - i)") auto

definition RunLengthDecode_decode :: "byte list \<Rightarrow> error + byte list" where
  "RunLengthDecode_decode data = RunLengthDecode_loop data 0 []"

text \<open>
  The format as the specification words it, for comparison with the decoder: a run is
  either 1 to 128 literal bytes behind the length byte \<open>n - 1\<close>, or one byte repeated
  2 to 128 times behind the length byte \<open>257 - n\<close>.
\<close>

datatype run = Literal "byte list" | Repeat nat byte

fun spec_valid_run :: "run \<Rightarrow> bool" where
  "spec_valid_run (Literal bs) = (1 \<le> length bs \<and> length bs \<le> 128)"
| "spec_valid_run (Repeat n b) = (2 \<le> n \<and> n \<le> 128)"

fun spec_encode_run :: "run \<Rightarrow> byte list" where
  "spec_encode_run (Literal bs) = word_of_nat (length bs - 1) # bs"
| "spec_encode_run (Repeat n b) = [word_of_nat (257 - n), b]"

fun spec_expand_run :: "run \<Rightarrow> byte list" where
  "spec_expand_run (Literal bs) = bs"
| "spec_expand_run (Repeat n b) = replicate n b"

section \<open>The object model used by the page-label and dictionary code\<close>

text \<open>
  The PDF objects the modelled functions meet. \<open>NumberObject\<close> is a Python int,
  \<open>NameObject\<close> and \<open>TextStringObject\<close> are Python strings (both subclass \<open>str\<close>), an
  \<open>ArrayObject\<close> is a list and a \<open>DictionaryObject\<close> a dict, kept as an association list
  read with \<open>map_of\<close>. An \<open>IndirectObject\<close> holds an object id and a generation.
\<close>

datatype pdfobj =
    NumberObject int
  | NameObject string
  | TextStringObject string
  | NullObject
  | IndirectObject nat nat
  | ArrayObject "pdfobj list"
  | DictionaryObject "(string \<times> pdfobj) list"

type_synonym pdfdict = "(string \<times> pdfobj) list"
type_synonym object_table = "nat \<times> nat \<rightharpoonup> pdfobj"

text \<open>
  Modelled from the spec: \<^verbatim>\<open>get_object\<close> (the resolution of indirect references,
  \<^verbatim>\<open>PdfObject.get_object\<close> and the reader's \<^verbatim>\<open>get_object\<close>) is not under src/. The
  specification gives \<open>resolve(ref)\<close>: it dereferences an indirect reference through the
  document's object table and fails when the id and generation are absent; a direct
  object stands for itself.
\<close>

definition get_object :: "object_table \<Rightarrow> pdfobj \<Rightarrow> error + pdfobj" where
  "get_object objects obj =
     (case obj of
        IndirectObject idnum generation \<Rightarrow>
          (case objects (idnum, generation) of
             None \<Rightarrow> Inl (PdfReadError ''ReferenceNotFound'')
           | Some v \<Rightarrow> Inr v)
      | _ \<Rightarrow> Inr obj)"

text \<open>\<^verbatim>\<open>DictionaryObject.__getitem__\<close>: \<^verbatim>\<open>dict.__getitem__(self, key).get_object()\<close>.\<close>

definition dict_getitem :: "object_table \<Rightarrow> pdfdict \<Rightarrow> string \<Rightarrow> error + pdfobj" where
  "dict_getitem objects self key =
     (case map_of self key of
        None \<Rightarrow> Inl KeyError
      | Some v \<Rightarrow> get_object objects v)"

text \<open>The reader, as far as the modelled code reads it: the catalogue and the object table.\<close>

record reader =
  root_object :: pdfdict
  objects :: object_table

section \<open>_page_labels.py\<close>

text \<open>Python's \<^verbatim>\<open>str\<close> of an int: the decimal digits, with a minus sign below zero.\<close>

definition digit_char :: "nat \<Rightarrow> char" where
  "digit_char d = char_of (48 + d)"

function str_nat :: "nat \<Rightarrow> string" where
  "str_nat n = (if n < 10 then [digit_char n] else str_nat (n div 10) @ [digit_char (n mod 10)])"
  by pat_completeness auto
termination
  by (relation "measure id") auto

definition str_int :: "int \<Rightarrow> string" where
  "str_int i = (if i < 0 then CHR ''-'' # str_nat (nat (- i)) else str_nat (nat i))"

text \<open>\<^verbatim>\<open>str.upper\<close> and \<^verbatim>\<open>str.lower\<close> on the ASCII letters the numerals are made of.\<close>

definition char_upper :: "char \<Rightarrow> char" where
  "char_upper c =
     (if 97 \<le> (of_char c :: nat) \<and> (of_char c :: nat) \<le> 122 then char_of ((of_char c :: nat) - 32) else c)"

definition char_lower :: "char \<Rightarrow> char" where
  "char_lower c =
     (if 65 \<le> (of_char c :: nat) \<and> (of_char c :: nat) \<le> 90 then char_of ((of_char c :: nat) + 32) else c)"

definition upper :: "string \<Rightarrow> string" where
  "upper s = map char_upper s"

definition lower :: "string \<Rightarrow> string" where
  "lower s = map char_lower s"

text \<open>
  \<^verbatim>\<open>to_roman\<close>: the \<^verbatim>\<open>for\<close> loop over the table with its inner
  \<^verbatim>\<open>while num >= value\<close> loop. Every value of the table is positive; the test
  \<open>0 < v\<close> only makes the recursion total for an arbitrary table.
\<close>

definition roman_symbols :: "(string \<times> int) list" where
  "roman_symbols =
     [(''M'', 1000), (''CM'', 900), (''D'', 500), (''CD'', 400), (''C'', 100), (''XC'', 90),
      (''L'', 50), (''XL'', 40), (''X'', 10), (''IX'', 9), (''V'', 5), (''IV'', 4), (''I'', 1)]"

function to_roman_loop :: "(string \<times> int) list \<Rightarrow> int \<Rightarrow> string \<Rightarrow> string" where
  "to_roman_loop [] num result = result"
| "to_roman_loop ((symbol, v) # rest) num result =
     (if num \<ge> v \<and> 0 < v then to_roman_loop ((symbol, v) # rest) (num - v) (result @ symbol)
      else to_roman_loop rest num result)"
  by pat_completeness auto
termination
  by (relation "measures [\<lambda>(tab, num, result). length tab, \<lambda>(tab, num, result). nat num]") auto

definition to_roman :: "int \<Rightarrow> string" where
  "to_roman num = to_roman_loop roman_symbols num []"

text \<open>\<^verbatim>\<open>to_alpha\<close>: \<^verbatim>\<open>num, remainder = divmod(num - 1, 26)\<close> while \<open>num > 0\<close>.\<close>

function to_alpha_loop :: "int \<Rightarrow> string \<Rightarrow> string" where
  "to_alpha_loop num result =
     (if num > 0 then to_alpha_loop ((num - 1) div 26) (char_of (nat (65 + (num - 1) mod 26)) # result)
      else result)"
  by pat_completeness auto
termination
  by (relation "measure (\<lambda>(num, result). nat num)") auto

definition to_alpha :: "int \<Rightarrow> string" where
  "to_alpha num = to_alpha_loop num []"

text \<open>
  \<^verbatim>\<open>index2label\<close>. The loop \<^verbatim>\<open>for i in range(0, len(nums), 2)\<close> carries
  \<open>start_index\<close> and \<open>label_dict\<close> (\<open>None\<close> until an entry is taken). Comparing an entry
  that is not a number with the index raises TypeError; \<^verbatim>\<open>nums[i + 1]\<close> past the end
  raises IndexError.
\<close>

function index2label_loop ::
  "object_table \<Rightarrow> pdfobj list \<Rightarrow> int \<Rightarrow> nat \<Rightarrow> int \<Rightarrow> pdfobj option \<Rightarrow> error + int \<times> pdfobj option"
where
  "index2label_loop objs nums index i start_index label_dict =
     (if i < length nums then
        (case nums ! i of
           NumberObject n \<Rightarrow>
             if n > index then Inr (start_index, label_dict)
             else if i + 1 < length nums then
               (case get_object objs (nums ! (i + 1)) of
                  Inl e \<Rightarrow> Inl e
                | Inr d \<Rightarrow> index2label_loop objs nums index (i + 2) n (Some d))
             else Inl IndexError
         | _ \<Rightarrow> Inl TypeError)
      else Inr (start_index, label_dict))"
  by pat_completeness auto
termination
  by (relation "measure (\<lambda>(objs, nums, index, i, start_index, label_dict). length nums - i)") auto

text \<open>
  \<open>style == "/D"\<close> compares a Python string with the entry: it holds for a name or a
  text string of these characters, and for nothing else (the default \<open>"D"\<close> matches no
  branch).
\<close>

fun str_eq :: "pdfobj option \<Rightarrow> string \<Rightarrow> bool" where
  "str_eq (Some (NameObject s)) t = (s = t)"
| "str_eq (Some (TextStringObject s)) t = (s = t)"
| "str_eq _ t = False"

text \<open>
  The part of \<^verbatim>\<open>index2label\<close> behind the loop. \<open>fmt\<close> is Python's formatting of the
  \<open>/P\<close> entry inside the f-string (a parameter: it is the built-in \<open>format\<close>); the default
  prefix is the empty string, the default start is 1. The sum
  \<open>index - start_index + start\<close> raises TypeError when \<open>/St\<close> is not a number.
\<close>

definition render_label ::
  "(pdfobj \<Rightarrow> string) \<Rightarrow> int \<Rightarrow> int \<Rightarrow> pdfobj \<Rightarrow> error + string" where
  "render_label fmt index start_index label_dict =
     (case label_dict of
        DictionaryObject d \<Rightarrow>
          (let style = map_of d ''/S'';
               prefix = (case map_of d ''/P'' of None \<Rightarrow> [] | Some p \<Rightarrow> fmt p)
           in case (case map_of d ''/St'' of None \<Rightarrow> Some 1 | Some (NumberObject n) \<Rightarrow> Some n | Some _ \<Rightarrow> None) of
                None \<Rightarrow> Inl TypeError
              | Some start \<Rightarrow>
                  (let page_index = index - start_index + start in
                   if str_eq style ''/D'' then Inr (prefix @ str_int page_index)
                   else if str_eq style ''/R'' then Inr (prefix @ upper (to_roman page_index))
                   else if str_eq style ''/r'' then Inr (prefix @ lower (to_roman page_index))
                   else if str_eq style ''/A'' then Inr (prefix @ upper (to_alpha page_index))
                   else if str_eq style ''/a'' then Inr (prefix @ lower (to_alpha page_index))
                   else Inr (str_int (index + 1))))
      | _ \<Rightarrow> Inl AttributeError)"

text \<open>
  \<^verbatim>\<open>reader.root_object["/PageLabels"]["/Nums"]\<close> and the loop over it. Only a list
  can be walked: \<open>len\<close> of a number, of the null object or of a reference raises
  TypeError, a non-empty dictionary has no key 0 (KeyError), a character of a non-empty
  string does not compare with the index (TypeError); an empty dictionary or string
  leaves the loop without an entry.
\<close>

definition index2label :: "(pdfobj \<Rightarrow> string) \<Rightarrow> reader \<Rightarrow> int \<Rightarrow> error + string" where
  "index2label fmt rd index =
     (if map_of (root_object rd) ''/PageLabels'' = None then Inr (str_int (index + 1))
      else
        (case dict_getitem (objects rd) (root_object rd) ''/PageLabels'' of
           Inl e \<Rightarrow> Inl e
         | Inr (DictionaryObject page_labels) \<Rightarrow>
             (case dict_getitem (objects rd) page_labels ''/Nums'' of
                Inl e \<Rightarrow> Inl e
              | Inr nums \<Rightarrow>
                  (case (case nums of
                           ArrayObject xs \<Rightarrow> index2label_loop (objects rd) xs index 0 0 None
                         | DictionaryObject d \<Rightarrow> if d = [] then Inr (0, None) else Inl KeyError
                         | NameObject s \<Rightarrow> if s = [] then Inr (0, None) else Inl TypeError
                         | TextStringObject s \<Rightarrow> if s = [] then Inr (0, None) else Inl TypeError
                         | _ \<Rightarrow> Inl TypeError) of
                     Inl e \<Rightarrow> Inl e
                   | Inr (start_index, None) \<Rightarrow> Inr (str_int (index + 1))
                   | Inr (start_index, Some label_dict) \<Rightarrow>
                       render_label fmt index start_index label_dict))
         | Inr _ \<Rightarrow> Inl TypeError))"

text \<open>
  \<^verbatim>\<open>nums_clear_range\<close>. \<^verbatim>\<open>key in nums\<close> and \<^verbatim>\<open>nums.index(key)\<close> compare the key
  with every element of the array, keys and values alike; \<open>first_index\<close> is the position
  of the first equal element. The function returns the array it has mutated.
\<close>

fun first_index :: "'a list \<Rightarrow> 'a \<Rightarrow> nat" where
  "first_index [] x = 0"
| "first_index (y # ys) x = (if y = x then 0 else Suc (first_index ys x))"

function nums_clear_range_loop :: "pdfobj list \<Rightarrow> int \<Rightarrow> nat \<Rightarrow> error + nat" where
  "nums_clear_range_loop nums page_index_to i =
     (if i < length nums then
        (case nums ! i of
           NumberObject n \<Rightarrow>
             if n \<ge> page_index_to then Inr i
             else nums_clear_range_loop nums page_index_to (i + 2)
         | _ \<Rightarrow> Inl TypeError)
      else Inr i)"
  by pat_completeness auto
termination
  by (relation "measure (\<lambda>(nums, page_index_to, i). length nums - i)") auto

definition nums_clear_range :: "int \<Rightarrow> int \<Rightarrow> pdfobj list \<Rightarrow> error + pdfobj list" where
  "nums_clear_range key page_index_to nums =
     (let start_index = (if NumberObject key \<in> set nums then int (first_index nums (NumberObject key)) else - 2);
          first = nat (start_index + 2)
      in case nums_clear_range_loop nums page_index_to first of
           Inl e \<Rightarrow> Inl e
         | Inr i \<Rightarrow> Inr (take first nums @ drop i nums))"

text \<open>
  A number tree as the specification words it: pairs of an integer key and a value,
  stored as a flat array that alternates keys and values.
\<close>

definition spec_nums_of :: "(int \<times> pdfobj) list \<Rightarrow> pdfobj list" where
  "spec_nums_of entries = concat (map (\<lambda>(k, v). [NumberObject k, v]) entries)"

text \<open>
  The reader of the specification's example: the catalogue holds the number tree
  \<^verbatim>\<open>[0, {/S: /r}, 4, {/S: /D}]\<close> under \<open>/PageLabels\<close>.
\<close>

definition example_reader :: reader where
  "example_reader =
     \<lparr>root_object =
        [(''/PageLabels'', DictionaryObject [(''/Nums'', ArrayObject
           [NumberObject 0, DictionaryObject [(''/S'', NameObject ''/r'')],
            NumberObject 4, DictionaryObject [(''/S'', NameObject ''/D'')]])])],
      objects = Map.empty\<rparr>"

section \<open>filters.py: FlateDecode._decode_predictor\<close>

text \<open>
  \<open>data\<close> is a \<open>bytes\<close> object (the output of \<open>zlib\<close>), so each row
  \<^verbatim>\<open>data[i:i+row_size]\<close> is one too, and \<open>bytes\<close> does not support item assignment:
  the first pass of \<^verbatim>\<open>for j in range(colors, len(row)): row[j] = ...\<close> evaluates
  \<open>row[j]\<close> and \<open>row[j-colors]\<close> (IndexError when \<open>j\<close> is below \<open>-len(row)\<close>) and then
  raises TypeError at the store. The loop leaves the row as it is only when the range is
  empty.
\<close>

definition bytes_sub_loop :: "int \<Rightarrow> byte list \<Rightarrow> error + byte list" where
  "bytes_sub_loop colors row =
     (if colors < int (length row) then
        (if colors < - int (length row) then Inl IndexError else Inl TypeError)
      else Inr row)"

text \<open>
  The two \<^verbatim>\<open>for i in range(0, len(data), row_size)\<close> loops, for a positive
  \<open>row_size\<close> (the caller below treats the other cases).
\<close>

function tiff_rows :: "byte list \<Rightarrow> nat \<Rightarrow> int \<Rightarrow> nat \<Rightarrow> byte list \<Rightarrow> error + byte list" where
  "tiff_rows data row_size colors i output =
     (if i < length data \<and> 0 < row_size then
        (case bytes_sub_loop colors (slice data i (i + row_size)) of
           Inl e \<Rightarrow> Inl e
         | Inr row \<Rightarrow> tiff_rows data row_size colors (i + row_size) (output @ row))
      else Inr output)"
  by pat_completeness auto
termination
  by (relation "measure (\<lambda>(data, row_size, colors, i, output). length data - i)") auto

function png_rows :: "byte list \<Rightarrow> nat \<Rightarrow> int \<Rightarrow> nat \<Rightarrow> byte list \<Rightarrow> error + byte list" where
  "png_rows data row_size colors i output =
     (if i < length data \<and> 0 < row_size then
        (let filter_type = unat (data ! i);
             row = slice data (i + 1) (i + row_size)
         in if filter_type = 0 then png_rows data row_size colors (i + row_size) (output @ row)
            else if filter_type = 1 then
              (case bytes_sub_loop colors row of
                 Inl e \<Rightarrow> Inl e
               | Inr row' \<Rightarrow> png_rows data row_size colors (i + row_size) (output @ row'))
            else png_rows data row_size colors (i + row_size) output)
      else Inr output)"
  by pat_completeness auto
termination
  by (relation "measure (\<lambda>(data, row_size, colors, i, output). length data - i)") auto

text \<open>
  \<^verbatim>\<open>_decode_predictor\<close>. \<open>range\<close> with step 0 raises ValueError; with a negative
  step it is empty.
\<close>

definition decode_predictor :: "byte list \<Rightarrow> int \<Rightarrow> int \<Rightarrow> int \<Rightarrow> int \<Rightarrow> error + byte list" where
  "decode_predictor data predictor columns colors bits_per_component =
     (if predictor = 2 then
        (let row_size = (columns * colors * bits_per_component + 7) div 8
         in if row_size = 0 then Inl ValueError
            else tiff_rows data (nat row_size) colors 0 [])
      else if predictor \<ge> 10 \<and> predictor \<le> 15 then
        (let row_size = columns * colors * bits_per_component div 8 + 1
         in if row_size = 0 then Inl ValueError
            else png_rows data (nat row_size) colors 0 [])
      else Inl (PdfReadError (''Unsupported predictor: '' @ str_int predictor)))"

section \<open>filters.py: decode_stream_data\<close>

text \<open>
  A stream object: its dictionary and its \<^verbatim>\<open>_data\<close>. The data passes through the
  decoders as an opaque value (\<open>bytes\<close>, or the \<open>str\<close> that LZWDecode returns).
\<close>

record 'd stream =
  stream_dict :: pdfdict
  stream_data :: 'd

text \<open>
  The five decoders the loop calls. They are parameters: FlateDecode and ASCII85Decode
  rest on \<open>zlib\<close> and \<open>base64\<close>, and what is proved of the loop holds whatever the
  decoders compute or raise.
\<close>

record 'd codecs =
  flate :: "'d \<Rightarrow> pdfobj option \<Rightarrow> error + 'd"
  ascii_hex :: "'d \<Rightarrow> error + 'd"
  run_length :: "'d \<Rightarrow> error + 'd"
  lzw :: "'d \<Rightarrow> pdfobj option \<Rightarrow> error + 'd"
  ascii85 :: "'d \<Rightarrow> error + 'd"

text \<open>\<^verbatim>\<open>[f.get_object() if isinstance(f, IndirectObject) else f for f in filters]\<close>.\<close>

fun resolve_all :: "object_table \<Rightarrow> pdfobj list \<Rightarrow> error + pdfobj list" where
  "resolve_all objs [] = Inr []"
| "resolve_all objs (f # fs) =
     (case get_object objs f of
        Inl e \<Rightarrow> Inl e
      | Inr g \<Rightarrow> (case resolve_all objs fs of Inl e \<Rightarrow> Inl e | Inr gs \<Rightarrow> Inr (g # gs)))"

text \<open>
  The \<^verbatim>\<open>isinstance\<close> chain over \<^verbatim>\<open>stream.get("/Filter", ())\<close>. The default of an
  absent entry is a tuple, which no branch accepts.
\<close>

definition stream_filters :: "object_table \<Rightarrow> 'd stream \<Rightarrow> error + pdfobj list" where
  "stream_filters objs st =
     (case map_of (stream_dict st) ''/Filter'' of
        None \<Rightarrow> Inl (PdfReadError ''Unsupported Filter type'')
      | Some f0 \<Rightarrow>
          (case (case f0 of IndirectObject idnum generation \<Rightarrow> get_object objs f0 | _ \<Rightarrow> Inr f0) of
             Inl e \<Rightarrow> Inl e
           | Inr filters \<Rightarrow>
               (case filters of
                  ArrayObject fs \<Rightarrow> resolve_all objs fs
                | NullObject \<Rightarrow> Inr []
                | NameObject s \<Rightarrow> Inr [filters]
                | TextStringObject s \<Rightarrow> Inr [filters]
                | IndirectObject idnum generation \<Rightarrow>
                    (case get_object objs filters of Inl e \<Rightarrow> Inl e | Inr g \<Rightarrow> Inr [g])
                | _ \<Rightarrow> Inl (PdfReadError ''Unsupported Filter type''))))"

text \<open>
  The \<^verbatim>\<open>isinstance\<close> chain over \<^verbatim>\<open>stream.get("/DecodeParms", {})\<close>. The default of
  an absent entry is a plain \<open>dict\<close>, which is none of IndirectObject, ArrayObject,
  NullObject and DictionaryObject: the last branch raises. The null object becomes the
  empty dict \<open>{}\<close>, whose length is 0: every filter then gets the parameter \<open>None\<close>, as
  with an empty list.
\<close>

definition stream_decode_params :: "object_table \<Rightarrow> 'd stream \<Rightarrow> error + pdfobj list" where
  "stream_decode_params objs st =
     (case map_of (stream_dict st) ''/DecodeParms'' of
        None \<Rightarrow> Inl (PdfReadError ''Unsupported DecodeParms type'')
      | Some p0 \<Rightarrow>
          (case (case p0 of IndirectObject idnum generation \<Rightarrow> get_object objs p0 | _ \<Rightarrow> Inr p0) of
             Inl e \<Rightarrow> Inl e
           | Inr decode_params \<Rightarrow>
               (case decode_params of
                  ArrayObject ps \<Rightarrow> resolve_all objs ps
                | NullObject \<Rightarrow> Inr []
                | DictionaryObject d \<Rightarrow> Inr [decode_params]
                | _ \<Rightarrow> Inl (PdfReadError ''Unsupported DecodeParms type''))))"

text \<open>\<^verbatim>\<open>decode_params[i] if i < len(decode_params) else None\<close>.\<close>

definition param_at :: "pdfobj list \<Rightarrow> nat \<Rightarrow> pdfobj option" where
  "param_at decode_params i = (if i < length decode_params then Some (decode_params ! i) else None)"

definition is_image_filter :: "pdfobj \<Rightarrow> bool" where
  "is_image_filter filter_type =
     (str_eq (Some filter_type) ''/DCTDecode'' \<or> str_eq (Some filter_type) ''/JPXDecode''
      \<or> str_eq (Some filter_type) ''/CCITTFaxDecode'')"

text \<open>
  The loop \<^verbatim>\<open>for i, filter_type in enumerate(filters)\<close>, over the filters still to
  come, with the index \<open>i\<close> and the data decoded so far.
\<close>

fun decode_filters :: "'d codecs \<Rightarrow> pdfobj list \<Rightarrow> nat \<Rightarrow> pdfobj list \<Rightarrow> 'd \<Rightarrow> error + 'd" where
  "decode_filters c [] i decode_params data = Inr data"
| "decode_filters c (filter_type # filters) i decode_params data =
     (if str_eq (Some filter_type) ''/FlateDecode'' \<or> str_eq (Some filter_type) ''/Fl'' then
        (case flate c data (param_at decode_params i) of
           Inl e \<Rightarrow> Inl e | Inr data' \<Rightarrow> decode_filters c filters (i + 1) decode_params data')
      else if str_eq (Some filter_type) ''/ASCIIHexDecode'' then
        (case ascii_hex c data of
           Inl e \<Rightarrow> Inl e | Inr data' \<Rightarrow> decode_filters c filters (i + 1) decode_params data')
      else if str_eq (Some filter_type) ''/RunLengthDecode'' then
        (case run_length c data of
           Inl e \<Rightarrow> Inl e | Inr data' \<Rightarrow> decode_filters c filters (i + 1) decode_params data')
      else if str_eq (Some filter_type) ''/LZWDecode'' then
        (case lzw c data (param_at decode_params i) of
           Inl e \<Rightarrow> Inl e | Inr data' \<Rightarrow> decode_filters c filters (i + 1) decode_params data')
      else if str_eq (Some filter_type) ''/ASCII85Decode'' then
        (case ascii85 c data of
           Inl e \<Rightarrow> Inl e | Inr data' \<Rightarrow> decode_filters c filters (i + 1) decode_params data')
      else if is_image_filter filter_type then Inr data
      else Inl (NotImplementedError ''Unsupported filter type''))"

definition decode_stream_data :: "object_table \<Rightarrow> 'd codecs \<Rightarrow> 'd stream \<Rightarrow> error + 'd" where
  "decode_stream_data objs c st =
     (case stream_filters objs st of
        Inl e \<Rightarrow> Inl e
      | Inr filters \<Rightarrow>
          (case stream_decode_params objs st of
             Inl e \<Rightarrow> Inl e
           | Inr decode_params \<Rightarrow> decode_filters c filters 0 decode_params (stream_data st)))"

section \<open>filters.py: LZWDecode\<close>

text \<open>
  \<^verbatim>\<open>LZWDecode.Decoder\<close>: the fields of the object as a record. \<^verbatim>\<open>__init__\<close> fills a
  table of 4096 strings with the 256 one-character strings, the rest empty, and calls
  \<^verbatim>\<open>reset_dict\<close>.
\<close>

definition STOP :: nat where "STOP = 257"
definition CLEARDICT :: nat where "CLEARDICT = 256"

record Decoder =
  data :: "byte list"
  bytepos :: nat
  bitpos :: nat
  dict :: "string list"
  dict_size :: nat
  curr_code_size :: nat

definition reset_dict :: "Decoder \<Rightarrow> Decoder" where
  "reset_dict self = self\<lparr>dict_size := 258, curr_code_size := 9\<rparr>"

definition Decoder_init :: "byte list \<Rightarrow> Decoder" where
  "Decoder_init d =
     reset_dict \<lparr>data = d, bytepos = 0, bitpos = 0,
       dict = map (\<lambda>i. [char_of i]) [0..<256] @ replicate (4096 - 256) [],
       dict_size = 0, curr_code_size = 0\<rparr>"

text \<open>
  \<^verbatim>\<open>get_next_code\<close>: the loop \<^verbatim>\<open>while fillbits > 0\<close>. One pass takes
  \<open>bitsfromhere\<close> bits of the current byte (\<open>read_bits\<close> is the update of \<open>value\<close>,
  \<open>advance\<close> the update of \<open>bitpos\<close> and \<open>bytepos\<close>). \<open>bitpos\<close> stays below 8 in every
  state the decoder reaches.
\<close>

definition bitsfromhere :: "Decoder \<Rightarrow> nat \<Rightarrow> nat" where
  "bitsfromhere self fillbits = (if 8 - bitpos self > fillbits then fillbits else 8 - bitpos self)"

definition read_bits :: "Decoder \<Rightarrow> nat \<Rightarrow> nat \<Rightarrow> nat" where
  "read_bits self fillbits v =
     (let nextbits = unat (data self ! bytepos self)
      in v OR push_bit (fillbits - bitsfromhere self fillbits)
           (drop_bit (8 - bitpos self - bitsfromhere self fillbits) nextbits
            AND drop_bit (8 - bitsfromhere self fillbits) 255))"

definition advance :: "Decoder \<Rightarrow> nat \<Rightarrow> Decoder" where
  "advance self fillbits =
     (let self1 = self\<lparr>bitpos := bitpos self + bitsfromhere self fillbits\<rparr>
      in if bitpos self1 \<ge> 8 then self1\<lparr>bitpos := 0, bytepos := bytepos self1 + 1\<rparr> else self1)"

function get_next_code_loop :: "Decoder \<Rightarrow> nat \<Rightarrow> nat \<Rightarrow> error + nat \<times> Decoder" where
  "get_next_code_loop self fillbits v =
     (if fillbits > 0 then
        (if bytepos self \<ge> length (data self) then Inl (PdfReadError ''LZW stream is missing stop code'')
         else get_next_code_loop (advance self fillbits) (fillbits - bitsfromhere self fillbits)
                (read_bits self fillbits v))
      else Inr (v, self))"
  by pat_completeness auto
termination
  by (relation "measures [\<lambda>(self, fillbits, v). fillbits, \<lambda>(self, fillbits, v). (if bitpos self \<ge> 8 then 1 else 0)]")
     (auto simp: advance_def bitsfromhere_def Let_def split: if_splits)

definition get_next_code :: "Decoder \<Rightarrow> error + nat \<times> Decoder" where
  "get_next_code self = get_next_code_loop self (curr_code_size self) 0"

text \<open>
  \<^verbatim>\<open>add_code_to_dict\<close>: the store \<^verbatim>\<open>self.dict[self.dict_size] = newstring\<close> raises
  IndexError once the table of 4096 strings is full.
\<close>

definition add_code_to_dict :: "string \<Rightarrow> Decoder \<Rightarrow> error + Decoder" where
  "add_code_to_dict newstring self =
     (if dict_size self < length (dict self) then
        (let self1 = self\<lparr>dict := (dict self)[dict_size self := newstring], dict_size := dict_size self + 1\<rparr>
         in Inr (if dict_size self1 = 512 then self1\<lparr>curr_code_size := 10\<rparr>
                 else if dict_size self1 = 1024 then self1\<lparr>curr_code_size := 11\<rparr>
                 else if dict_size self1 = 2048 then self1\<lparr>curr_code_size := 12\<rparr>
                 else self1))
      else Inl IndexError)"

text \<open>\<^verbatim>\<open>self.dict[c]\<close>, with the IndexError of a code beyond the table.\<close>

definition dict_at :: "Decoder \<Rightarrow> nat \<Rightarrow> error + string" where
  "dict_at self c = (if c < length (dict self) then Inr (dict self ! c) else Inl IndexError)"

text \<open>
  The bits left to read; every successful \<^verbatim>\<open>get_next_code\<close> uses up
  \<open>curr_code_size\<close> of them, which is what makes the decoding loop terminate.
\<close>

definition remaining :: "Decoder \<Rightarrow> nat" where
  "remaining self =
     (if bitpos self \<ge> 8 then 8 * (length (data self) - bytepos self - 1)
      else 8 * (length (data self) - bytepos self) - bitpos self)"

declare get_next_code_loop.simps [simp del]

lemma remaining_advance:
  "bytepos self < length (data self) \<Longrightarrow>
     remaining (advance self fillbits) + bitsfromhere self fillbits = remaining self"
  by (auto simp: remaining_def advance_def bitsfromhere_def Let_def split: if_splits)

lemma advance_fields:
  "dict (advance self fillbits) = dict self \<and> dict_size (advance self fillbits) = dict_size self
   \<and> curr_code_size (advance self fillbits) = curr_code_size self
   \<and> data (advance self fillbits) = data self"
  by (simp add: advance_def Let_def)

lemma get_next_code_loop_remaining:
  "get_next_code_loop self fillbits v = Inr (c, self') \<Longrightarrow>
     remaining self' + fillbits = remaining self \<and> dict self' = dict self
     \<and> dict_size self' = dict_size self \<and> curr_code_size self' = curr_code_size self"
proof (induction self fillbits v arbitrary: c self' rule: get_next_code_loop.induct)
  case (1 self fillbits v)
  note unf = get_next_code_loop.simps [of self fillbits v]
  show ?case
  proof (cases "fillbits > 0")
    case False
    then show ?thesis using "1.prems" unf by simp
  next
    case True
    have inb: "bytepos self < length (data self)"
      using "1.prems" True unf by (simp split: if_splits)
    have rec: "get_next_code_loop (advance self fillbits) (fillbits - bitsfromhere self fillbits)
                (read_bits self fillbits v) = Inr (c, self')"
      using "1.prems" True inb unf by simp
    have nb: "\<not> length (data self) \<le> bytepos self" using inb by simp
    note ih = "1.IH" [OF True nb rec]
    have le: "bitsfromhere self fillbits \<le> fillbits" by (simp add: bitsfromhere_def)
    have e1: "remaining self' + (fillbits - bitsfromhere self fillbits) = remaining (advance self fillbits)"
      using ih by blast
    have e2: "remaining self' + fillbits = remaining self"
      using e1 remaining_advance [OF inb, of fillbits] le by linarith
    show ?thesis
      using ih e2 advance_fields [of self fillbits] by simp
  qed
qed

lemma get_next_code_remaining:
  "get_next_code self = Inr (c, self') \<Longrightarrow>
     remaining self' + curr_code_size self = remaining self \<and> dict self' = dict self
     \<and> dict_size self' = dict_size self \<and> curr_code_size self' = curr_code_size self"
  unfolding get_next_code_def by (rule get_next_code_loop_remaining)

lemma get_next_code_no_bits:
  "curr_code_size self = 0 \<Longrightarrow> get_next_code self = Inr (0, self)"
  unfolding get_next_code_def by (subst get_next_code_loop.simps) simp

lemma add_code_to_dict_fields:
  "add_code_to_dict newstring self = Inr self' \<Longrightarrow>
     dict_size self < length (dict self) \<and> dict_size self' = dict_size self + 1
     \<and> length (dict self') = length (dict self) \<and> remaining self' = remaining self"
  by (auto simp: add_code_to_dict_def Let_def remaining_def split: if_splits)

lemma remaining_reset_dict: "remaining (reset_dict self) = remaining self"
  by (simp add: reset_dict_def remaining_def)

text \<open>
  \<^verbatim>\<open>Decoder.decode\<close>. \<open>code_string\<close> is the \<^verbatim>\<open>try: s = self.dict[cW]\<close> with its
  \<^verbatim>\<open>except IndexError\<close> branch, \<open>new_entry\<close> the argument
  \<^verbatim>\<open>self.dict[old] + s[0]\<close>; \<open>s[0]\<close> of an empty string raises IndexError. The first
  code is read before the loop and is not compared with STOP or CLEARDICT.
\<close>

definition first_char :: "string \<Rightarrow> error + char" where
  "first_char s = (case s of [] \<Rightarrow> Inl IndexError | c # cs \<Rightarrow> Inr c)"

definition code_string :: "Decoder \<Rightarrow> nat \<Rightarrow> nat \<Rightarrow> error + string" where
  "code_string self cW old =
     (case dict_at self cW of
        Inr s \<Rightarrow> Inr s
      | Inl e \<Rightarrow>
          (case dict_at self old of
             Inl e' \<Rightarrow> Inl e'
           | Inr prev \<Rightarrow> (case first_char prev of Inl e' \<Rightarrow> Inl e' | Inr c \<Rightarrow> Inr (prev @ [c]))))"

definition new_entry :: "Decoder \<Rightarrow> nat \<Rightarrow> string \<Rightarrow> error + string" where
  "new_entry self old s =
     (case dict_at self old of
        Inl e \<Rightarrow> Inl e
      | Inr prev \<Rightarrow> (case first_char s of Inl e \<Rightarrow> Inl e | Inr c \<Rightarrow> Inr (prev @ [c])))"

function decode_loop :: "Decoder \<Rightarrow> string \<Rightarrow> nat \<Rightarrow> error + string" where
  "decode_loop self result old =
     (case get_next_code self of
        Inl e \<Rightarrow> Inl e
      | Inr (cW, self1) \<Rightarrow>
          if cW = STOP then Inr result
          else if cW = CLEARDICT then
            (case get_next_code (reset_dict self1) of
               Inl e \<Rightarrow> Inl e
             | Inr (cW2, self2) \<Rightarrow>
                 (case dict_at self2 cW2 of
                    Inl e \<Rightarrow> Inl e
                  | Inr s \<Rightarrow> decode_loop self2 (result @ s) cW2))
          else
            (case code_string self1 cW old of
               Inl e \<Rightarrow> Inl e
             | Inr s \<Rightarrow>
                 (case new_entry self1 old s of
                    Inl e \<Rightarrow> Inl e
                  | Inr newstring \<Rightarrow>
                      (case add_code_to_dict newstring self1 of
                         Inl e \<Rightarrow> Inl e
                       | Inr self2 \<Rightarrow> decode_loop self2 (result @ s) cW))))"
  by pat_completeness auto
termination
proof (relation "measures [\<lambda>(self, result, old). remaining self,
                           \<lambda>(self, result, old). length (dict self) - dict_size self]", goal_cases)
  case 1
  show ?case by simp
next
  case (2 self result old x cW self1 y cW2 self2 s)
  have g1: "get_next_code self = Inr (cW, self1)" using 2 by simp
  have "curr_code_size self \<noteq> 0"
    using get_next_code_no_bits [of self] g1 2 by (auto simp: CLEARDICT_def)
  moreover have "remaining self1 + curr_code_size self = remaining self"
    using get_next_code_remaining [OF g1] by simp
  moreover have "get_next_code (reset_dict self1) = Inr (cW2, self2)" using 2 by simp
  from get_next_code_remaining [OF this]
  have "remaining self2 \<le> remaining (reset_dict self1)"
    by linarith
  then have "remaining self2 \<le> remaining self1"
    by (simp add: remaining_reset_dict)
  ultimately show ?case by simp
next
  case (3 self result old x cW self1 s newstring self2)
  have g1: "get_next_code self = Inr (cW, self1)" using 3 by simp
  note r = get_next_code_remaining [OF g1]
  note a = add_code_to_dict_fields [OF 3(7)]
  show ?case using r a by auto
qed

definition Decoder_decode :: "Decoder \<Rightarrow> error + string" where
  "Decoder_decode self =
     (case get_next_code self of
        Inl e \<Rightarrow> Inl e
      | Inr (cW, self1) \<Rightarrow>
          (case dict_at self1 cW of
             Inl e \<Rightarrow> Inl e
           | Inr result \<Rightarrow> decode_loop self1 result cW))"

definition LZWDecode_decode :: "byte list \<Rightarrow> error + string" where
  "LZWDecode_decode d = Decoder_decode (Decoder_init d)"

section \<open>_text_extraction/_layout_mode/_text_state_manager.py\<close>

text \<open>
  The operands of a content-stream operator: numbers (of a type \<open>'a\<close> with ring
  arithmetic, standing for Python's int and float), strings, names, booleans and arrays.
\<close>

datatype 'a operand =
    Number 'a
  | Str string
  | Name string
  | Boolean bool
  | Arr "'a operand list"

text \<open>
  A transform is the dict that \<^verbatim>\<open>new_transform\<close> builds: the keys 0 to 5 and the keys
  \<open>'is_text'\<close> and \<open>'is_render'\<close>. The \<open>ChainMap\<close> holding the stack is its list \<open>maps\<close>,
  the newest map first: \<^verbatim>\<open>ChainMap(*maps)\<close> keeps \<^verbatim>\<open>list(maps) or [{}]\<close>,
  \<^verbatim>\<open>new_child(m)\<close> is \<^verbatim>\<open>ChainMap(m, *self.maps)\<close> and \<^verbatim>\<open>parents\<close> is
  \<^verbatim>\<open>ChainMap(*self.maps[1:])\<close>.
\<close>

datatype tkey = Idx nat | IsText | IsRender

type_synonym 'a transform = "(tkey \<times> 'a operand) list"
type_synonym 'a chainmap = "'a transform list"

definition ChainMap :: "'a transform list \<Rightarrow> 'a chainmap" where
  "ChainMap maps = (if maps = [] then [[]] else maps)"

definition new_child :: "'a transform \<Rightarrow> 'a chainmap \<Rightarrow> 'a chainmap" where
  "new_child m cm = ChainMap (m # cm)"

definition parents :: "'a chainmap \<Rightarrow> 'a chainmap" where
  "parents cm = ChainMap (drop 1 cm)"

text \<open>
  \<^verbatim>\<open>new_transform(_a=1.0, _b=0.0, _c=0.0, _d=1.0, _e=0.0, _f=0.0, is_text=False,
  is_render=False)\<close>, called with the positional arguments \<open>args\<close> and, from
  \<^verbatim>\<open>add_tm\<close> and \<^verbatim>\<open>add_trm\<close>, the keywords. More than eight positional arguments, or
  a positional argument for a parameter also given by keyword, raise TypeError.
\<close>

definition arg_or :: "'b list \<Rightarrow> nat \<Rightarrow> 'b \<Rightarrow> 'b" where
  "arg_or args i dflt = (if i < length args then args ! i else dflt)"

definition transform_of ::
  "('a::comm_ring_1) operand list \<Rightarrow> bool option \<Rightarrow> bool option \<Rightarrow> 'a transform" where
  "transform_of args is_text is_render =
     [(Idx 0, arg_or args 0 (Number 1)), (Idx 1, arg_or args 1 (Number 0)),
      (Idx 2, arg_or args 2 (Number 0)), (Idx 3, arg_or args 3 (Number 1)),
      (Idx 4, arg_or args 4 (Number 0)), (Idx 5, arg_or args 5 (Number 0)),
      (IsText, case is_text of Some b \<Rightarrow> Boolean b | None \<Rightarrow> arg_or args 6 (Boolean False)),
      (IsRender, case is_render of Some b \<Rightarrow> Boolean b | None \<Rightarrow> arg_or args 7 (Boolean False))]"

definition new_transform ::
  "('a::comm_ring_1) operand list \<Rightarrow> bool option \<Rightarrow> bool option \<Rightarrow> error + 'a transform" where
  "new_transform args is_text is_render =
     (if length args > 8 \<or> (is_text \<noteq> None \<and> length args > 6)
         \<or> (is_render \<noteq> None \<and> length args > 7)
      then Inl TypeError
      else Inr (transform_of args is_text is_render))"

text \<open>
  The manager. \<open>q_queue\<close> is a \<open>Counter\<close>: a dict whose missing keys read as 0.
  \<open>font\<close> is \<open>None\<close> until \<^verbatim>\<open>set_font\<close>; the font objects are of a type \<open>'f\<close>
  (\<^verbatim>\<open>_font.py\<close> is not part of the modelled code).
\<close>

record ('a, 'f) TextStateManager =
  transform_stack :: "'a chainmap"
  q_queue :: "(int \<times> int) list"
  q_depth :: "int list"
  Tc :: "'a operand"
  Tw :: "'a operand"
  Tz :: "'a operand"
  TL :: "'a operand"
  Ts :: "'a operand"
  font :: "'f option"
  font_size :: "'a operand"

definition TextStateManager_init :: "('a::comm_ring_1, 'f) TextStateManager" where
  "TextStateManager_init =
     \<lparr>transform_stack = ChainMap [transform_of [] None None],
      q_queue = [], q_depth = [0],
      Tc = Number 0, Tw = Number 0, Tz = Number 100, TL = Number 0, Ts = Number 0,
      font = None, font_size = Number 0\<rparr>"

definition counter_get :: "(int \<times> int) list \<Rightarrow> int \<Rightarrow> int" where
  "counter_get q k = (case map_of q k of None \<Rightarrow> 0 | Some n \<Rightarrow> n)"

text \<open>
  \<^verbatim>\<open>set_state_param\<close>, called with the operand list: \<^verbatim>\<open>value = value[0]\<close> raises
  IndexError on the empty list.
\<close>

definition set_state_param ::
  "string \<Rightarrow> 'a operand list \<Rightarrow> ('a, 'f) TextStateManager \<Rightarrow> error + ('a, 'f) TextStateManager" where
  "set_state_param op operands self =
     (case operands of
        [] \<Rightarrow> Inl IndexError
      | v # vs \<Rightarrow>
          Inr (if op = ''Tc'' then self\<lparr>Tc := v\<rparr>
               else if op = ''Tw'' then self\<lparr>Tw := v\<rparr>
               else if op = ''Tz'' then self\<lparr>Tz := v\<rparr>
               else if op = ''TL'' then self\<lparr>TL := v\<rparr>
               else if op = ''Ts'' then self\<lparr>Ts := v\<rparr>
               else self))"

definition set_font ::
  "'f \<Rightarrow> 'a operand \<Rightarrow> ('a, 'f) TextStateManager \<Rightarrow> ('a, 'f) TextStateManager" where
  "set_font f size' self = self\<lparr>font := Some f, font_size := size'\<rparr>"

text \<open>
  \<^verbatim>\<open>effective_transform\<close>: the product, from the oldest map to the newest, of the
  matrices \<^verbatim>\<open>[transform[i] for i in range(6)]\<close>; a map without one of the keys 0 to 5
  raises KeyError. \<open>mult\<close> is a parameter (it is imported from the package's
  \<^verbatim>\<open>__init__\<close>, which is not part of the modelled code).
\<close>

definition matrix_of :: "'a transform \<Rightarrow> error + 'a operand list" where
  "matrix_of t =
     (if list_all (\<lambda>i. map_of t (Idx i) \<noteq> None) [0..<6]
      then Inr (map (\<lambda>i. the (map_of t (Idx i))) [0..<6])
      else Inl KeyError)"

fun effective_transform_loop ::
  "('a operand list \<Rightarrow> 'a operand list \<Rightarrow> error + 'a operand list) \<Rightarrow> 'a operand list \<Rightarrow>
   'a transform list \<Rightarrow> error + 'a operand list" where
  "effective_transform_loop mult result [] = Inr result"
| "effective_transform_loop mult result (t # ts) =
     (case matrix_of t of
        Inl e \<Rightarrow> Inl e
      | Inr m \<Rightarrow>
          (case mult result m of
             Inl e \<Rightarrow> Inl e
           | Inr r \<Rightarrow> effective_transform_loop mult r ts))"

definition effective_transform ::
  "(('a::comm_ring_1) operand list \<Rightarrow> 'a operand list \<Rightarrow> error + 'a operand list) \<Rightarrow>
   ('a, 'f) TextStateManager \<Rightarrow> error + 'a operand list" where
  "effective_transform mult self =
     effective_transform_loop mult [Number 1, Number 0, Number 0, Number 1, Number 0, Number 0]
       (rev (transform_stack self))"

text \<open>
  \<^verbatim>\<open>text_state_params\<close> with its default argument. The arguments of the
  \<^verbatim>\<open>TextStateParams\<close> constructor are a record; the constructor itself
  (\<^verbatim>\<open>_text_state_params.py\<close>) is a parameter of the traversal below.
\<close>

record ('a, 'f) tsp_args =
  tsp_txt :: string
  tsp_font :: 'f
  tsp_font_size :: "'a operand"
  tsp_Tc :: "'a operand"
  tsp_Tw :: "'a operand"
  tsp_Tz :: "'a operand"
  tsp_TL :: "'a operand"
  tsp_Ts :: "'a operand"
  transform :: "'a operand list"

definition text_state_params ::
  "(('a::comm_ring_1) operand list \<Rightarrow> 'a operand list \<Rightarrow> error + 'a operand list) \<Rightarrow>
   ('a, 'f) TextStateManager \<Rightarrow> error + ('a, 'f) tsp_args" where
  "text_state_params mult self =
     (case font self of
        None \<Rightarrow> Inl (PdfReadError ''Font not set. No Tf operator in incoming pdf content stream.'')
      | Some f \<Rightarrow>
          (case effective_transform mult self of
             Inl e \<Rightarrow> Inl e
           | Inr m \<Rightarrow>
               Inr \<lparr>tsp_txt = [], tsp_font = f, tsp_font_size = font_size self,
                    tsp_Tc = Tc self, tsp_Tw = Tw self, tsp_Tz = Tz self, tsp_TL = TL self,
                    tsp_Ts = Ts self, transform = m\<rparr>))"

text \<open>
  \<^verbatim>\<open>remove_q\<close>, \<^verbatim>\<open>add_q\<close>, \<^verbatim>\<open>add_cm\<close>, \<^verbatim>\<open>add_tm\<close>. \<open>q_depth[-1]\<close> is the last
  element (IndexError on the empty list). In \<^verbatim>\<open>remove_q\<close> the test on \<open>q_depth\<close> guards
  the counters only: the assignment
  \<^verbatim>\<open>self.transform_stack = self.transform_stack.parents\<close> comes after the \<open>if\<close>.
\<close>

definition remove_q :: "('a, 'f) TextStateManager \<Rightarrow> error + ('a, 'f) TextStateManager" where
  "remove_q self =
     (if q_depth self = [] then Inl IndexError
      else
        (let self1 =
               (if last (q_depth self) > 0 then
                  (let d = last (q_depth self) - 1;
                       depth1 = butlast (q_depth self) @ [d];
                       n = counter_get (q_queue self) d - 1;
                       queue1 = AList.update d n (q_queue self)
                   in if n = 0 then self\<lparr>q_queue := AList.delete d queue1, q_depth := butlast depth1\<rparr>
                      else self\<lparr>q_queue := queue1, q_depth := depth1\<rparr>)
                else self)
         in Inr (self1\<lparr>transform_stack := parents (transform_stack self1)\<rparr>)))"

definition add_q :: "('a, 'f) TextStateManager \<Rightarrow> error + ('a, 'f) TextStateManager" where
  "add_q self =
     (if q_depth self = [] then Inl IndexError
      else
        (let d = last (q_depth self) + 1
         in Inr (self\<lparr>q_depth := q_depth self @ [d],
                      q_queue := AList.update d (counter_get (q_queue self) d + 1) (q_queue self)\<rparr>)))"

definition add_cm ::
  "('a::comm_ring_1) operand list \<Rightarrow> ('a, 'f) TextStateManager \<Rightarrow> error + ('a, 'f) TextStateManager" where
  "add_cm args self =
     (case new_transform args None None of
        Inl e \<Rightarrow> Inl e
      | Inr t \<Rightarrow> Inr (self\<lparr>transform_stack := new_child t (transform_stack self)\<rparr>))"

definition complete_matrix :: "('a::comm_ring_1) operand list \<Rightarrow> 'a operand list" where
  "complete_matrix operands =
     (if length operands = 2
      then [Number 1, Number 0, Number 0, Number 1, operands ! 0, operands ! 1]
      else operands)"

definition add_tm ::
  "('a::comm_ring_1) operand list \<Rightarrow> ('a, 'f) TextStateManager \<Rightarrow> error + ('a, 'f) TextStateManager" where
  "add_tm operands self =
     (case new_transform (complete_matrix operands) (Some True) None of
        Inl e \<Rightarrow> Inl e
      | Inr t \<Rightarrow> Inr (self\<lparr>transform_stack := new_child t (transform_stack self)\<rparr>))"

section \<open>_text_extraction/_layout_mode/_fixed_width_page.py\<close>

text \<open>
  What the traversal uses and the modelled files do not hold: \<open>mult\<close>, the
  \<^verbatim>\<open>TextStateParams\<close> constructor (which may raise), and the attributes and methods of
  its instances (of a type \<open>'p\<close>) that \<^verbatim>\<open>recurs_to_target_op\<close> and \<^verbatim>\<open>bt_group\<close> read.
\<close>

record ('a, 'f, 'p) layout_env =
  mult :: "'a operand list \<Rightarrow> 'a operand list \<Rightarrow> error + 'a operand list"
  TextStateParams :: "('a, 'f) tsp_args \<Rightarrow> error + 'p"
  displaced_transform :: "'p \<Rightarrow> error + 'a operand list"
  rotated :: "'p \<Rightarrow> bool"
  flip_vertical :: "'p \<Rightarrow> bool"
  tx :: "'p \<Rightarrow> 'a operand"
  ty :: "'p \<Rightarrow> 'a operand"
  size_of :: "'p \<Rightarrow> 'a operand"
  font_height :: "'p \<Rightarrow> 'a operand"

record 'a BTGroup =
  bt_tx :: "'a operand"
  bt_ty :: "'a operand"
  bt_font_size :: "'a operand"
  bt_font_height :: "'a operand"
  bt_text :: "'a operand"
  bt_displaced_tx :: "'a operand"
  flip_sort :: int

definition bt_group :: "('a, 'f, 'p) layout_env \<Rightarrow> 'p \<Rightarrow> 'a operand \<Rightarrow> 'a operand \<Rightarrow> 'a BTGroup" where
  "bt_group env tj_op rendered_text dispaced_tx =
     \<lparr>bt_tx = tx env tj_op, bt_ty = ty env tj_op, bt_font_size = size_of env tj_op,
      bt_font_height = font_height env tj_op, bt_text = rendered_text,
      bt_displaced_tx = dispaced_tx, flip_sort = (if flip_vertical env tj_op then - 1 else 1)\<rparr>"

text \<open>
  The text of a \<open>Tj\<close> or \<open>TJ\<close> operator: \<^verbatim>\<open>operands[0]\<close> as it is for \<open>Tj\<close>; for \<open>TJ\<close> the
  strings among its elements joined (a string iterates over its own characters; a
  number or a boolean is not iterable).
\<close>

definition rendered_text :: "string \<Rightarrow> 'a operand list \<Rightarrow> error + 'a operand" where
  "rendered_text operator operands =
     (case operands of
        [] \<Rightarrow> Inl IndexError
      | x # xs \<Rightarrow>
          if operator = ''TJ'' then
            (case x of
               Arr elems \<Rightarrow>
                 Inr (Str (concat (map (\<lambda>el. case el of Str s \<Rightarrow> s | Name s \<Rightarrow> s | _ \<Rightarrow> []) elems)))
             | Str s \<Rightarrow> Inr (Str s)
             | Name s \<Rightarrow> Inr (Str s)
             | _ \<Rightarrow> Inl TypeError)
          else Inr x)"

text \<open>\<^verbatim>\<open>fonts[font_name]\<close>: KeyError for a missing key, TypeError for an unhashable one.\<close>

definition fonts_getitem :: "(string \<times> 'f) list \<Rightarrow> 'a operand \<Rightarrow> error + 'f" where
  "fonts_getitem fonts font_name =
     (case font_name of
        Arr elems \<Rightarrow> Inl TypeError
      | Name s \<Rightarrow> (case map_of fonts s of None \<Rightarrow> Inl KeyError | Some f \<Rightarrow> Inr f)
      | Str s \<Rightarrow> (case map_of fonts s of None \<Rightarrow> Inl KeyError | Some f \<Rightarrow> Inr f)
      | _ \<Rightarrow> Inl KeyError)"

text \<open>
  The branches of the loop of \<^verbatim>\<open>recurs_to_target_op\<close> that do not recurse: \<open>cm\<close>,
  \<open>Tm\<close>, \<open>Tf\<close>, the five state parameters, \<open>Tj\<close> and \<open>TJ\<close>; any other operator changes
  nothing. The state is the manager with the two lists the loop appends to.
\<close>

definition show_text ::
  "('a::comm_ring_1, 'f, 'p) layout_env \<Rightarrow> bool \<Rightarrow> 'a operand list \<Rightarrow> string \<Rightarrow>
   ('a, 'f) TextStateManager \<Rightarrow> 'a BTGroup list \<Rightarrow> 'p list \<Rightarrow> error + 'a BTGroup list \<times> 'p list" where
  "show_text env strip_rotated operands operator mgr bt_groups params =
     (case text_state_params (mult env) mgr of
        Inl e \<Rightarrow> Inl e
      | Inr args \<Rightarrow>
          (case TextStateParams env args of
             Inl e \<Rightarrow> Inl e
           | Inr tj_op \<Rightarrow>
               (case rendered_text operator operands of
                  Inl e \<Rightarrow> Inl e
                | Inr text \<Rightarrow>
                    (case displaced_transform env tj_op of
                       Inl e \<Rightarrow> Inl e
                     | Inr m \<Rightarrow>
                         if length m \<le> 4 then Inl IndexError
                         else Inr (if \<not> (strip_rotated \<and> rotated env tj_op)
                                   then bt_groups @ [bt_group env tj_op text (m ! 4)]
                                   else bt_groups,
                                   params @ [tj_op])))))"

definition plain_op ::
  "('a::comm_ring_1, 'f, 'p) layout_env \<Rightarrow> (string \<times> 'f) list \<Rightarrow> bool \<Rightarrow> 'a operand list \<Rightarrow> string \<Rightarrow>
   ('a, 'f) TextStateManager \<Rightarrow> 'a BTGroup list \<Rightarrow> 'p list \<Rightarrow>
   error + ('a, 'f) TextStateManager \<times> 'a BTGroup list \<times> 'p list" where
  "plain_op env fonts strip_rotated operands operator mgr bt_groups params =
     (if operator = ''cm'' then
        (case add_cm operands mgr of Inl e \<Rightarrow> Inl e | Inr mgr' \<Rightarrow> Inr (mgr', bt_groups, params))
      else if operator = ''Tm'' then
        (case add_tm operands mgr of Inl e \<Rightarrow> Inl e | Inr mgr' \<Rightarrow> Inr (mgr', bt_groups, params))
      else if operator = ''Tf'' then
        (case operands of
           [font_name, size'] \<Rightarrow>
             (case fonts_getitem fonts font_name of
                Inl e \<Rightarrow> Inl e
              | Inr f \<Rightarrow> Inr (set_font f size' mgr, bt_groups, params))
         | _ \<Rightarrow> Inl ValueError)
      else if operator \<in> set [''Tc'', ''Tw'', ''Tz'', ''TL'', ''Ts''] then
        (case set_state_param operator operands mgr of
           Inl e \<Rightarrow> Inl e | Inr mgr' \<Rightarrow> Inr (mgr', bt_groups, params))
      else if operator \<in> set [''Tj'', ''TJ''] then
        (case show_text env strip_rotated operands operator mgr bt_groups params of
           Inl e \<Rightarrow> Inl e | Inr (bt_groups', params') \<Rightarrow> Inr (mgr, bt_groups', params'))
      else Inr (mgr, bt_groups, params))"

text \<open>
  \<^verbatim>\<open>recurs_to_target_op\<close>. The iterator \<open>ops\<close> is shared with the recursive calls: the
  function takes the operators still to come and returns those it has left, with the
  manager and the two lists. The end target leaves the loop (no call of
  \<^verbatim>\<open>remove_q\<close>); \<open>BT\<close> and \<open>q\<close> recurse and the loop goes on with what the call has left.
\<close>

function recurs_to_target_op ::
  "('a::comm_ring_1, 'f, 'p) layout_env \<Rightarrow> (string \<times> 'f) list \<Rightarrow> bool \<Rightarrow>
   ('a operand list \<times> string) list \<Rightarrow> ('a, 'f) TextStateManager \<Rightarrow> string \<Rightarrow>
   'a BTGroup list \<Rightarrow> 'p list \<Rightarrow>
   error + ('a operand list \<times> string) list \<times> ('a, 'f) TextStateManager \<times> 'a BTGroup list \<times> 'p list"
where
  "recurs_to_target_op env fonts strip_rotated [] mgr end_target bt_groups params =
     Inr ([], mgr, bt_groups, params)"
| "recurs_to_target_op env fonts strip_rotated ((operands, operator) # ops) mgr end_target bt_groups params =
     (if operator = end_target then Inr (ops, mgr, bt_groups, params)
      else if operator = ''BT'' then
        (case recurs_to_target_op env fonts strip_rotated ops mgr ''ET'' [] [] of
           Inl e \<Rightarrow> Inl e
         | Inr (rest, mgr', sub_bt_groups, sub_params) \<Rightarrow>
             recurs_to_target_op env fonts strip_rotated rest mgr' end_target
               (bt_groups @ sub_bt_groups) (params @ sub_params))
      else if operator = ''q'' then
        (case add_q mgr of
           Inl e \<Rightarrow> Inl e
         | Inr mgr1 \<Rightarrow>
             (case recurs_to_target_op env fonts strip_rotated ops mgr1 ''Q'' [] [] of
                Inl e \<Rightarrow> Inl e
              | Inr (rest, mgr', sub_bt_groups, sub_params) \<Rightarrow>
                  recurs_to_target_op env fonts strip_rotated rest mgr' end_target
                    (bt_groups @ sub_bt_groups) (params @ sub_params)))
      else
        (case plain_op env fonts strip_rotated operands operator mgr bt_groups params of
           Inl e \<Rightarrow> Inl e
         | Inr (mgr', bt_groups', params') \<Rightarrow>
             recurs_to_target_op env fonts strip_rotated ops mgr' end_target bt_groups' params'))"
  by pat_completeness auto

lemma recurs_to_target_op_rest:
  "recurs_to_target_op_dom (env, fonts, strip_rotated, ops, mgr, end_target, bt_groups, params) \<Longrightarrow>
     recurs_to_target_op env fonts strip_rotated ops mgr end_target bt_groups params
       = Inr (rest, mgr', bt_groups', params') \<Longrightarrow>
     length rest \<le> length ops"
proof (induction env fonts strip_rotated ops mgr end_target bt_groups params
    arbitrary: rest mgr' bt_groups' params' rule: recurs_to_target_op.pinduct)
  case (1 env fonts strip_rotated mgr end_target bt_groups params)
  then show ?case by (simp add: recurs_to_target_op.psimps)
next
  case (2 env fonts strip_rotated operands operator ops mgr end_target bt_groups params)
  note eq = "2.prems" [unfolded recurs_to_target_op.psimps(2) [OF "2.hyps"]]
  show ?case
  proof (cases "operator = end_target")
    case True
    then show ?thesis using eq by simp
  next
    case nt: False
    show ?thesis
    proof (cases "operator = ''BT''")
      case True
      then obtain r1 m1 b1 p1 where
        inner: "recurs_to_target_op env fonts strip_rotated ops mgr ''ET'' [] [] = Inr (r1, m1, b1, p1)"
        and outer: "recurs_to_target_op env fonts strip_rotated r1 m1 end_target (bt_groups @ b1) (params @ p1)
          = Inr (rest, mgr', bt_groups', params')"
        using eq nt by (auto split: sum.splits)
      have "length r1 \<le> length ops"
        using "2.IH"(1) [OF nt True inner] .
      moreover have "length rest \<le> length r1"
        using "2.IH"(2) [OF nt True inner refl refl refl outer] .
      ultimately show ?thesis by simp
    next
      case nb: False
      show ?thesis
      proof (cases "operator = ''q''")
        case True
        then obtain mq r1 m1 b1 p1 where
          aq: "add_q mgr = Inr mq"
          and inner: "recurs_to_target_op env fonts strip_rotated ops mq ''Q'' [] [] = Inr (r1, m1, b1, p1)"
          and outer: "recurs_to_target_op env fonts strip_rotated r1 m1 end_target (bt_groups @ b1) (params @ p1)
            = Inr (rest, mgr', bt_groups', params')"
          using eq nt nb by (auto split: sum.splits)
        have "length r1 \<le> length ops"
          using "2.IH"(3) [OF nt nb True aq inner] .
        moreover have "length rest \<le> length r1"
          using "2.IH"(4) [OF nt nb True aq inner refl refl refl outer] .
        ultimately show ?thesis by simp
      next
        case nq: False
        then obtain m1 b1 p1 where
          po: "plain_op env fonts strip_rotated operands operator mgr bt_groups params = Inr (m1, b1, p1)"
          and outer: "recurs_to_target_op env fonts strip_rotated ops m1 end_target b1 p1
            = Inr (rest, mgr', bt_groups', params')"
          using eq nt nb by (auto split: sum.splits)
        have "length rest \<le> length ops"
          using "2.IH"(5) [OF nt nb nq po refl refl outer] .
        then show ?thesis by simp
      qed
    qed
  qed
qed

termination recurs_to_target_op
proof (relation "measure (\<lambda>(env, fonts, strip_rotated, ops, mgr, end_target, bt_groups, params). length ops)",
    goal_cases)
  case 1
  show ?case by simp
next
  case 2
  then show ?case by simp
next
  case 3
  then show ?case using recurs_to_target_op_rest by fastforce
next
  case 4
  then show ?case by simp
next
  case 5
  then show ?case using recurs_to_target_op_rest by fastforce
next
  case 6
  then show ?case by simp
qed

lemma recurs_to_target_op_shorter:
  "recurs_to_target_op env fonts strip_rotated ops mgr end_target bt_groups params
       = Inr (rest, mgr', bt_groups', params') \<Longrightarrow>
     length rest \<le> length ops"
proof (induction env fonts strip_rotated ops mgr end_target bt_groups params
    arbitrary: rest mgr' bt_groups' params' rule: recurs_to_target_op.induct)
  case (1 env fonts strip_rotated mgr end_target bt_groups params)
  then show ?case by simp
next
  case (2 env fonts strip_rotated operands operator ops mgr end_target bt_groups params)
  note eq = "2.prems" [unfolded recurs_to_target_op.simps(2)]
  show ?case
  proof (cases "operator = end_target")
    case True
    then show ?thesis using eq by simp
  next
    case nt: False
    show ?thesis
    proof (cases "operator = ''BT''")
      case True
      then obtain r1 m1 b1 p1 where
        inner: "recurs_to_target_op env fonts strip_rotated ops mgr ''ET'' [] [] = Inr (r1, m1, b1, p1)"
        and outer: "recurs_to_target_op env fonts strip_rotated r1 m1 end_target (bt_groups @ b1) (params @ p1)
          = Inr (rest, mgr', bt_groups', params')"
        using eq nt by (auto split: sum.splits)
      have "length r1 \<le> length ops"
        using "2.IH"(1) [OF nt True inner] .
      moreover have "length rest \<le> length r1"
        using "2.IH"(2) [OF nt True inner refl refl refl outer] .
      ultimately show ?thesis by simp
    next
      case nb: False
      show ?thesis
      proof (cases "operator = ''q''")
        case True
        then obtain mq r1 m1 b1 p1 where
          aq: "add_q mgr = Inr mq"
          and inner: "recurs_to_target_op env fonts strip_rotated ops mq ''Q'' [] [] = Inr (r1, m1, b1, p1)"
          and outer: "recurs_to_target_op env fonts strip_rotated r1 m1 end_target (bt_groups @ b1) (params @ p1)
            = Inr (rest, mgr', bt_groups', params')"
          using eq nt nb by (auto split: sum.splits)
        have "length r1 \<le> length ops"
          using "2.IH"(3) [OF nt nb True aq inner] .
        moreover have "length rest \<le> length r1"
          using "2.IH"(4) [OF nt nb True aq inner refl refl refl outer] .
        ultimately show ?thesis by simp
      next
        case nq: False
        then obtain m1 b1 p1 where
          po: "plain_op env fonts strip_rotated operands operator mgr bt_groups params = Inr (m1, b1, p1)"
          and outer: "recurs_to_target_op env fonts strip_rotated ops m1 end_target b1 p1
            = Inr (rest, mgr', bt_groups', params')"
          using eq nt nb by (auto split: sum.splits)
        have "length rest \<le> length ops"
          using "2.IH"(5) [OF nt nb nq po refl refl outer] .
        then show ?thesis by simp
      qed
    qed
  qed
qed

text \<open>
  \<^verbatim>\<open>text_show_operations\<close>: the loop over the same iterator at the top level, with a
  fresh manager. Here \<open>Q\<close> calls \<^verbatim>\<open>remove_q\<close>. The function returns the list of groups;
  \<open>text_show_loop\<close> also gives the manager the loop ends with.
\<close>

function text_show_loop ::
  "('a::comm_ring_1, 'f, 'p) layout_env \<Rightarrow> (string \<times> 'f) list \<Rightarrow> bool \<Rightarrow>
   ('a operand list \<times> string) list \<Rightarrow> ('a, 'f) TextStateManager \<Rightarrow> 'a BTGroup list \<Rightarrow>
   error + ('a, 'f) TextStateManager \<times> 'a BTGroup list"
where
  "text_show_loop env fonts strip_rotated [] mgr bt_groups = Inr (mgr, bt_groups)"
| "text_show_loop env fonts strip_rotated ((operands, operator) # ops) mgr bt_groups =
     (if operator = ''BT'' then
        (case recurs_to_target_op env fonts strip_rotated ops mgr ''ET'' [] [] of
           Inl e \<Rightarrow> Inl e
         | Inr (rest, mgr', sub_bt_groups, sub_params) \<Rightarrow>
             text_show_loop env fonts strip_rotated rest mgr' (bt_groups @ sub_bt_groups))
      else if operator = ''q'' then
        (case add_q mgr of
           Inl e \<Rightarrow> Inl e
         | Inr mgr1 \<Rightarrow>
             (case recurs_to_target_op env fonts strip_rotated ops mgr1 ''Q'' [] [] of
                Inl e \<Rightarrow> Inl e
              | Inr (rest, mgr', sub_bt_groups, sub_params) \<Rightarrow>
                  text_show_loop env fonts strip_rotated rest mgr' (bt_groups @ sub_bt_groups)))
      else if operator = ''Q'' then
        (case remove_q mgr of
           Inl e \<Rightarrow> Inl e
         | Inr mgr' \<Rightarrow> text_show_loop env fonts strip_rotated ops mgr' bt_groups)
      else if operator = ''cm'' then
        (case add_cm operands mgr of
           Inl e \<Rightarrow> Inl e
         | Inr mgr' \<Rightarrow> text_show_loop env fonts strip_rotated ops mgr' bt_groups)
      else text_show_loop env fonts strip_rotated ops mgr bt_groups)"
  by pat_completeness auto
termination
proof (relation "measure (\<lambda>(env, fonts, strip_rotated, ops, mgr, bt_groups). length ops)", goal_cases)
  case 1
  show ?case by simp
next
  case 2
  then show ?case using recurs_to_target_op_shorter by fastforce
next
  case 3
  then show ?case using recurs_to_target_op_shorter by fastforce
next
  case 4
  then show ?case by simp
next
  case 5
  then show ?case by simp
next
  case 6
  then show ?case by simp
qed

text \<open>\<^verbatim>\<open>text_show_operations\<close> itself (the debug output apart).\<close>

definition text_show_operations ::
  "('a::comm_ring_1, 'f, 'p) layout_env \<Rightarrow> (string \<times> 'f) list \<Rightarrow> bool \<Rightarrow>
   ('a operand list \<times> string) list \<Rightarrow> error + 'a BTGroup list" where
  "text_show_operations env fonts strip_rotated ops =
     (case text_show_loop env fonts strip_rotated ops TextStateManager_init [] of
        Inl e \<Rightarrow> Inl e
      | Inr (mgr, bt_groups) \<Rightarrow> Inr bt_groups)"

text \<open>
  Modelled from the spec: \<open>mult\<close> is not part of the modelled code. The specification
  describes the effective transform as the matrix product of the 2x3 affine matrices
  \<open>(a, b, c, d, e, f)\<close>, outer frames first; \<open>spec_mult m n\<close> is that product on numbers
  (anything else raises TypeError).
\<close>

fun number_of :: "'a operand \<Rightarrow> 'a option" where
  "number_of (Number x) = Some x"
| "number_of v = None"

definition numbers_of :: "'a operand list \<Rightarrow> 'a list option" where
  "numbers_of vs = (if list_all (\<lambda>v. number_of v \<noteq> None) vs then Some (map (\<lambda>v. the (number_of v)) vs) else None)"

definition spec_mult :: "('a::comm_ring_1) operand list \<Rightarrow> 'a operand list \<Rightarrow> error + 'a operand list" where
  "spec_mult m n =
     (case (numbers_of m, numbers_of n) of
        (Some [m0, m1, m2, m3, m4, m5], Some [n0, n1, n2, n3, n4, n5]) \<Rightarrow>
          Inr [Number (m0 * n0 + m1 * n2), Number (m0 * n1 + m1 * n3),
               Number (m2 * n0 + m3 * n2), Number (m2 * n1 + m3 * n3),
               Number (m4 * n0 + m5 * n2 + n4), Number (m4 * n1 + m5 * n3 + n5)]
      | _ \<Rightarrow> Inl TypeError)"

text \<open>
  An environment for the examples: \<open>spec_mult\<close>, a constructor that keeps its arguments,
  and attributes read off the transform.
\<close>

definition example_env :: "(int, string, (int, string) tsp_args) layout_env" where
  "example_env =
     \<lparr>mult = spec_mult, TextStateParams = (\<lambda>args. Inr args),
      displaced_transform = (\<lambda>p. Inr (transform p)), rotated = (\<lambda>p. False),
      flip_vertical = (\<lambda>p. False), tx = (\<lambda>p. transform p ! 4), ty = (\<lambda>p. transform p ! 5),
      size_of = tsp_font_size, font_height = tsp_font_size\<rparr>"

section \<open>generic/_data_structures.py: DictionaryObject.get_inherited\<close>


text \<open>
  The chain of \<open>/Parent\<close> links as the specification words it: from a dictionary that
  lacks the key, one step leads to the dictionary its \<open>/Parent\<close> entry resolves to.
\<close>

inductive spec_parent_chain :: "object_table \<Rightarrow> string \<Rightarrow> pdfdict \<Rightarrow> pdfdict \<Rightarrow> bool"
  for objs :: object_table and key :: string where
  here: "spec_parent_chain objs key d d"
| up: "map_of d key = None \<Longrightarrow>
       dict_getitem objs d ''/Parent'' = Inr (DictionaryObject p) \<Longrightarrow>
       spec_parent_chain objs key p anc \<Longrightarrow>
       spec_parent_chain objs key d anc"

section \<open>_utils.py: read_previous_line, and _reader.py: PdfReader._find_startxref_pos\<close>

text \<open>
  The stream is a \<open>BytesIO\<close> (the reader wraps a file given by its path in one): its
  bytes and its position. \<^verbatim>\<open>stream.seek(-1024, 2)\<close> moves to 1024 bytes before the end,
  and to the start when the stream is shorter; \<^verbatim>\<open>read(1)\<close> at position \<open>n\<close> gives
  \<^verbatim>\<open>content[n:n+1]\<close> and advances by its length.
\<close>

record bstream =
  content :: "byte list"
  position :: nat

definition seek_end_1024 :: "bstream \<Rightarrow> bstream" where
  "seek_end_1024 s = s\<lparr>position := length (content s) - 1024\<rparr>"

text \<open>
  \<^verbatim>\<open>read_previous_line\<close>: the loop \<^verbatim>\<open>while current_pos > 0\<close>, by recursion on
  \<open>current_pos\<close>. \<open>line\<close> holds the characters in the order the loop appends them (the
  result is \<^verbatim>\<open>line[::-1]\<close>), \<open>p\<close> is the position of the stream. The loop returns the
  line and the position the stream is left at.
\<close>

fun read_previous_line_loop :: "byte list \<Rightarrow> nat \<Rightarrow> byte list \<Rightarrow> nat \<Rightarrow> byte list \<times> nat" where
  "read_previous_line_loop bs 0 line p = (rev line, p)"
| "read_previous_line_loop bs (Suc n) line p =
     (let char = slice bs n (n + 1);
          p' = n + length char
      in if char = [13] \<or> char = [10] then
           (if line \<noteq> [] then (rev line, n + 1)
            else read_previous_line_loop bs n line p')
         else read_previous_line_loop bs n (line @ char) p')"

definition read_previous_line :: "bstream \<Rightarrow> byte list \<times> bstream" where
  "read_previous_line s =
     (case read_previous_line_loop (content s) (position s) [] (position s) of
        (line, p) \<Rightarrow> (line, s\<lparr>position := p\<rparr>))"

text \<open>
  The bytes of \<^verbatim>\<open>b"startxref"\<close>; \<^verbatim>\<open>b"startxref" in line\<close> is \<open>sublist startxref line\<close>
  (a contiguous part of the line).
\<close>

definition startxref :: "byte list" where
  "startxref = [115, 116, 97, 114, 116, 120, 114, 101, 102]"

text \<open>
  \<^verbatim>\<open>_find_startxref_pos\<close>. The loop \<^verbatim>\<open>while b"startxref" not in line\<close> has no other
  way out, so it is a partial function: \<open>None\<close> is the loop that never ends. \<open>to_int\<close>
  is Python's \<open>int\<close> of a bytes object (\<open>None\<close> where it raises ValueError).
\<close>

partial_function (option) find_startxref_loop :: "byte list \<Rightarrow> bstream \<Rightarrow> bstream option" where
  "find_startxref_loop line s =
     (if \<not> sublist startxref line then
        (case read_previous_line s of (line', s') \<Rightarrow> find_startxref_loop line' s')
      else Some s)"

definition find_startxref_pos ::
  "(byte list \<Rightarrow> int option) \<Rightarrow> bstream \<Rightarrow> (error + int \<times> bstream) option" where
  "find_startxref_pos to_int s =
     (case find_startxref_loop [] (seek_end_1024 s) of
        None \<Rightarrow> None
      | Some s1 \<Rightarrow>
          (case read_previous_line s1 of
             (line, s2) \<Rightarrow>
               (case to_int line of
                  None \<Rightarrow> Some (Inl ValueError)
                | Some n \<Rightarrow> Some (Inr (n, s2)))))"

section \<open>Objects and streams of the examples\<close>



text \<open>The bytes of \<^verbatim>\<open>b"%PDF-1.4\n%%EOF\n"\<close>.\<close>

definition pdf_without_startxref :: "byte list" where
  "pdf_without_startxref = [37, 80, 68, 70, 45, 49, 46, 52, 10, 37, 37, 69, 79, 70, 10]"

section \<open>Definitions used to state the properties of the filters\<close>




section \<open>Properties of filters.py: RunLengthDecode\<close>

declare RunLengthDecode_loop.simps [simp del]

lemma unat_byte_of_nat: "k < 256 \<Longrightarrow> unat (word_of_nat k :: byte) = k"
  by (simp add: unat_of_nat)

lemma rl_literal_byte:
  assumes "unat l < 128" "length bs = unat l + 1"
  shows "RunLengthDecode_loop (pre @ l # bs @ post) (length pre) acc
       = RunLengthDecode_loop (pre @ l # bs @ post) (length pre + unat l + 2) (acc @ bs)"
  using assms
  by (subst RunLengthDecode_loop.simps) (simp add: slice_def nth_append Let_def)

lemma rl_repeat_byte:
  assumes "128 < unat l"
  shows "RunLengthDecode_loop (pre @ l # b # post) (length pre) acc
       = RunLengthDecode_loop (pre @ l # b # post) (length pre + 2)
           (acc @ replicate (257 - unat l) b)"
  using assms
  by (subst RunLengthDecode_loop.simps) (simp add: nth_append Let_def)

lemma rl_step_literal:
  assumes "1 \<le> length bs" "length bs \<le> 128"
  shows "RunLengthDecode_loop (pre @ spec_encode_run (Literal bs) @ post) (length pre) acc
       = RunLengthDecode_loop (pre @ spec_encode_run (Literal bs) @ post)
           (length pre + length (spec_encode_run (Literal bs))) (acc @ bs)"
proof -
  define l :: byte where "l = word_of_nat (length bs - 1)"
  have u: "unat l = length bs - 1"
    unfolding l_def using assms by (intro unat_byte_of_nat) arith
  have e: "spec_encode_run (Literal bs) = l # bs"
    by (simp only: spec_encode_run.simps l_def)
  have "unat l < 128" "length bs = unat l + 1"
    using u assms by simp_all
  from rl_literal_byte [OF this, of pre post acc]
  have "RunLengthDecode_loop (pre @ l # bs @ post) (length pre) acc
       = RunLengthDecode_loop (pre @ l # bs @ post) (length pre + unat l + 2) (acc @ bs)" .
  moreover have "length pre + unat l + 2 = length pre + length (l # bs)"
    using u assms by simp
  ultimately show ?thesis
    unfolding e by (simp only: append_Cons)
qed

lemma rl_step_repeat:
  assumes "2 \<le> n" "n \<le> 128"
  shows "RunLengthDecode_loop (pre @ spec_encode_run (Repeat n b) @ post) (length pre) acc
       = RunLengthDecode_loop (pre @ spec_encode_run (Repeat n b) @ post)
           (length pre + length (spec_encode_run (Repeat n b))) (acc @ replicate n b)"
proof -
  define l :: byte where "l = word_of_nat (257 - n)"
  have u: "unat l = 257 - n"
    unfolding l_def using assms by (intro unat_byte_of_nat) arith
  have e: "spec_encode_run (Repeat n b) = [l, b]"
    by (simp only: spec_encode_run.simps l_def)
  have "128 < unat l"
    using u assms by simp
  from rl_repeat_byte [OF this, of pre b post acc] show ?thesis
    unfolding e using u assms by simp
qed

lemma rl_step:
  assumes "spec_valid_run r"
  shows "RunLengthDecode_loop (pre @ spec_encode_run r @ post) (length pre) acc
       = RunLengthDecode_loop (pre @ spec_encode_run r @ post)
           (length pre + length (spec_encode_run r)) (acc @ spec_expand_run r)"
  using assms rl_step_literal rl_step_repeat by (cases r) simp_all

lemma rl_runs:
  assumes "\<forall>r\<in>set runs. spec_valid_run r"
  shows "RunLengthDecode_loop (pre @ concat (map spec_encode_run runs) @ post) (length pre) acc
       = RunLengthDecode_loop (pre @ concat (map spec_encode_run runs) @ post)
           (length pre + length (concat (map spec_encode_run runs)))
           (acc @ concat (map spec_expand_run runs))"
  using assms
proof (induction runs arbitrary: pre acc)
  case Nil
  then show ?case by simp
next
  case (Cons r runs)
  have v: "spec_valid_run r" and vs: "\<forall>r\<in>set runs. spec_valid_run r"
    using Cons.prems by simp_all
  have "RunLengthDecode_loop (pre @ concat (map spec_encode_run (r # runs)) @ post) (length pre) acc
      = RunLengthDecode_loop (pre @ spec_encode_run r @ (concat (map spec_encode_run runs) @ post)) (length pre) acc"
    by simp
  also have "\<dots> = RunLengthDecode_loop (pre @ spec_encode_run r @ (concat (map spec_encode_run runs) @ post))
           (length pre + length (spec_encode_run r)) (acc @ spec_expand_run r)"
    by (rule rl_step [OF v])
  also have "\<dots> = RunLengthDecode_loop ((pre @ spec_encode_run r) @ concat (map spec_encode_run runs) @ post)
           (length (pre @ spec_encode_run r)) (acc @ spec_expand_run r)"
    by simp
  also have "\<dots> = RunLengthDecode_loop ((pre @ spec_encode_run r) @ concat (map spec_encode_run runs) @ post)
           (length (pre @ spec_encode_run r) + length (concat (map spec_encode_run runs)))
           ((acc @ spec_expand_run r) @ concat (map spec_expand_run runs))"
    by (rule Cons.IH [OF vs])
  finally show ?case by (simp add: add.assoc)
qed

lemma rl_eod: "RunLengthDecode_loop (pre @ 128 # post) (length pre) acc = Inr acc"
  by (subst RunLengthDecode_loop.simps) simp

lemma rl_end: "RunLengthDecode_loop pre (length pre) acc = Inr acc"
  by (subst RunLengthDecode_loop.simps) simp

text \<open>
  Claim C6. For every input of \<^verbatim>\<open>RunLengthDecode.decode\<close> made of well-formed runs, a
  length byte 0 to 127 copies the \<open>length + 1\<close> bytes that follow it, a length byte 129
  to 255 repeats the next byte \<open>257 - length\<close> times, and the length byte 128 ends the
  decoding (whatever follows it is ignored; the end of the data ends it as well). In
  particular \<^verbatim>\<open>bytes([2,97,98,99,255,65,128])\<close> decodes to \<^verbatim>\<open>b"abc" + b"A"*2\<close>.
\<close>

theorem RunLengthDecode_decodes_runs:
  "((\<forall>r\<in>set runs. spec_valid_run r) \<longrightarrow>
      RunLengthDecode_decode (concat (map spec_encode_run runs) @ 128 # rest)
        = Inr (concat (map spec_expand_run runs))
    \<and> RunLengthDecode_decode (concat (map spec_encode_run runs))
        = Inr (concat (map spec_expand_run runs)))
   \<and> RunLengthDecode_decode [2, 97, 98, 99, 255, 65, 128] = Inr ([97, 98, 99] @ replicate 2 65)"
proof (intro impI conjI)
  assume v: "\<forall>r\<in>set runs. spec_valid_run r"
  show "RunLengthDecode_decode (concat (map spec_encode_run runs) @ 128 # rest)
       = Inr (concat (map spec_expand_run runs))"
    using rl_runs [OF v, of "[]" "128 # rest" "[]"]
      rl_eod [of "concat (map spec_encode_run runs)" rest "concat (map spec_expand_run runs)"]
    by (simp add: RunLengthDecode_decode_def)
  show "RunLengthDecode_decode (concat (map spec_encode_run runs))
       = Inr (concat (map spec_expand_run runs))"
    using rl_runs [OF v, of "[]" "[]" "[]"]
      rl_end [of "concat (map spec_encode_run runs)" "concat (map spec_expand_run runs)"]
    by (simp add: RunLengthDecode_decode_def)
next
  show "RunLengthDecode_decode [2, 97, 98, 99, 255, 65, 128] = Inr ([97, 98, 99] @ replicate 2 65)"
    by code_simp
qed

theorem RunLengthDecode_decodes_runs_witness:
  "spec_valid_run (Literal [104, 105]) \<and> spec_valid_run (Repeat 3 33)
   \<and> RunLengthDecode_decode
        (concat (map spec_encode_run [Literal [104, 105], Repeat 3 33]) @ 128 # [7, 7])
      = Inr [104, 105, 33, 33, 33]"
  using RunLengthDecode_decodes_runs [of "[Literal [104, 105], Repeat 3 33]" "[7, 7]"]
  by (simp add: eval_nat_numeral)

section \<open>Properties of _page_labels.py\<close>

declare index2label_loop.simps [simp del] nums_clear_range_loop.simps [simp del]

lemma spec_nums_of_Nil [simp]: "spec_nums_of [] = []"
  by (simp add: spec_nums_of_def)

lemma spec_nums_of_Cons [simp]: "spec_nums_of ((k, v) # es) = NumberObject k # v # spec_nums_of es"
  by (simp add: spec_nums_of_def)

lemma spec_nums_of_append: "spec_nums_of (xs @ ys) = spec_nums_of xs @ spec_nums_of ys"
  by (simp add: spec_nums_of_def)

lemma length_spec_nums_of [simp]: "length (spec_nums_of es) = 2 * length es"
  by (induction es) auto

lemma nth_spec_nums_of_key:
  "spec_nums_of (pre @ (k, v) # es) ! (2 * length pre) = NumberObject k"
  by (simp add: spec_nums_of_append nth_append)

lemma nth_spec_nums_of_val:
  "spec_nums_of (pre @ (k, v) # es) ! Suc (2 * length pre) = v"
  by (simp add: spec_nums_of_append nth_append)

lemma drop_spec_nums_of: "drop (2 * n) (spec_nums_of es) = spec_nums_of (drop n es)"
proof (induction es arbitrary: n)
  case Nil
  then show ?case by simp
next
  case (Cons e es)
  obtain k v where e: "e = (k, v)" by (cases e)
  show ?case
  proof (cases n)
    case 0
    then show ?thesis by simp
  next
    case (Suc m)
    then show ?thesis using Cons.IH [of m] by (simp add: e)
  qed
qed

lemma index2label_loop_scan:
  assumes "\<forall>e\<in>set es. get_object objs (snd e) = Inr (r (snd e))"
  shows "index2label_loop objs (spec_nums_of (pre @ es)) index (2 * length pre) si ld
       = Inr (case takeWhile (\<lambda>e. fst e \<le> index) es of
                [] \<Rightarrow> (si, ld)
              | t # ts \<Rightarrow> (fst (last (t # ts)), Some (r (snd (last (t # ts))))))"
  using assms
proof (induction es arbitrary: pre si ld)
  case Nil
  show ?case
    by (subst index2label_loop.simps) simp
next
  case (Cons e es)
  obtain k v where e: "e = (k, v)" by (cases e)
  have gv: "get_object objs v = Inr (r v)"
    and rest: "\<forall>e\<in>set es. get_object objs (snd e) = Inr (r (snd e))"
    using Cons.prems by (simp_all add: e)
  show ?case
  proof (cases "k > index")
    case True
    then show ?thesis
      by (subst index2label_loop.simps) (simp add: e nth_spec_nums_of_key)
  next
    case False
    have step: "index2label_loop objs (spec_nums_of (pre @ (k, v) # es)) index (2 * length pre) si ld
        = index2label_loop objs (spec_nums_of ((pre @ [(k, v)]) @ es)) index (2 * length (pre @ [(k, v)])) k (Some (r v))"
      using False gv
      by (subst index2label_loop.simps) (simp add: nth_spec_nums_of_key nth_spec_nums_of_val)
    show ?thesis
      unfolding e step Cons.IH [OF rest]
      using False by (simp split: list.splits)
  qed
qed

lemma takeWhile_sorted_filter:
  "sorted (map fst es) \<Longrightarrow> takeWhile (\<lambda>e. fst e \<le> (index::int)) es = filter (\<lambda>e. fst e \<le> index) es"
proof (induction es)
  case Nil
  then show ?case by simp
next
  case (Cons e es)
  show ?case
  proof (cases "fst e \<le> index")
    case True
    then show ?thesis using Cons by simp
  next
    case False
    then have "\<forall>x\<in>set es. \<not> fst x \<le> index"
      using Cons.prems by auto
    then have "filter (\<lambda>e. fst e \<le> index) es = []"
      by (simp add: filter_empty_conv)
    then show ?thesis using False by simp
  qed
qed

lemma sorted_le_last:
  "sorted (xs::int list) \<Longrightarrow> x \<in> set xs \<Longrightarrow> x \<le> last xs"
  by (induction xs) auto

lemma last_filter_greatest:
  assumes "sorted (map fst es)" "filter (\<lambda>e. fst e \<le> (index::int)) es = t # ts"
  shows "last (t # ts) \<in> set es \<and> fst (last (t # ts)) \<le> index
       \<and> (\<forall>e'\<in>set es. fst e' \<le> index \<longrightarrow> fst e' \<le> fst (last (t # ts)))"
proof -
  let ?fs = "filter (\<lambda>e. fst e \<le> index) es"
  have ne: "?fs \<noteq> []" using assms(2) by simp
  have mem: "last ?fs \<in> set ?fs" using ne by (rule last_in_set)
  have s: "sorted (map fst ?fs)"
    using assms(1) by (simp add: sorted_filter)
  have "\<forall>e'\<in>set ?fs. fst e' \<le> fst (last ?fs)"
  proof
    fix e' assume "e' \<in> set ?fs"
    then have "fst e' \<in> set (map fst ?fs)" by (simp only: set_map image_eqI)
    from sorted_le_last [OF s this] show "fst e' \<le> fst (last ?fs)"
      using ne by (simp add: last_map)
  qed
  then have g: "\<forall>e'\<in>set es. fst e' \<le> index \<longrightarrow> fst e' \<le> fst (last ?fs)"
    by (simp only: set_filter mem_Collect_eq) blast
  have m: "last ?fs \<in> set es \<and> fst (last ?fs) \<le> index"
    using mem by (simp only: set_filter mem_Collect_eq)
  show ?thesis
    unfolding assms(2) [symmetric] using g m by (intro conjI) blast+
qed

lemma nums_clear_range_loop_scan:
  "nums_clear_range_loop (spec_nums_of (pre @ es)) page_index_to (2 * length pre)
     = Inr (2 * length pre + 2 * length (takeWhile (\<lambda>e. fst e < page_index_to) es))"
proof (induction es arbitrary: pre)
  case Nil
  show ?case by (subst nums_clear_range_loop.simps) simp
next
  case (Cons e es)
  obtain k v where e: "e = (k, v)" by (cases e)
  show ?case
  proof (cases "k \<ge> page_index_to")
    case True
    then show ?thesis
      by (subst nums_clear_range_loop.simps) (simp add: e nth_spec_nums_of_key)
  next
    case False
    have step: "nums_clear_range_loop (spec_nums_of (pre @ (k, v) # es)) page_index_to (2 * length pre)
        = nums_clear_range_loop (spec_nums_of ((pre @ [(k, v)]) @ es)) page_index_to (2 * length (pre @ [(k, v)]))"
      using False
      by (subst nums_clear_range_loop.simps) (simp add: nth_spec_nums_of_key)
    show ?thesis
      unfolding e step Cons.IH
      using False by simp
  qed
qed

lemma nums_clear_range_absent:
  assumes "NumberObject key \<notin> set (spec_nums_of entries)"
  shows "nums_clear_range key page_index_to (spec_nums_of entries)
       = Inr (spec_nums_of (dropWhile (\<lambda>e. fst e < page_index_to) entries))"
proof -
  have "nums_clear_range_loop (spec_nums_of ([] @ entries)) page_index_to (2 * length ([] :: (int \<times> pdfobj) list))
     = Inr (2 * length ([] :: (int \<times> pdfobj) list) + 2 * length (takeWhile (\<lambda>e. fst e < page_index_to) entries))"
    by (rule nums_clear_range_loop_scan)
  then have l: "nums_clear_range_loop (spec_nums_of entries) page_index_to 0
     = Inr (2 * length (takeWhile (\<lambda>e. fst e < page_index_to) entries))"
    by simp
  show ?thesis
    using assms
    by (simp add: nums_clear_range_def l drop_spec_nums_of dropWhile_eq_drop)
qed


lemma index2label_loop_sorted:
  assumes "sorted (map fst entries)"
    and "\<forall>e\<in>set entries. get_object objs (snd e) = Inr (r (snd e))"
  shows "index2label_loop objs (spec_nums_of entries) index 0 0 None
       = Inr (case filter (\<lambda>e. fst e \<le> index) entries of
                [] \<Rightarrow> (0, None)
              | t # ts \<Rightarrow> (fst (last (t # ts)), Some (r (snd (last (t # ts))))))"
  using index2label_loop_scan [OF assms(2), of "[]" index 0 None]
  by (simp add: takeWhile_sorted_filter [OF assms(1)])

text \<open>
  Claim C7. Page-label lookup selects the entry of the number tree with the greatest key
  that is at most the page index (the keys ascending, as in every number tree) and
  renders the label from that entry's dictionary; without such an entry the label is
  \<open>index + 1\<close>. With \<^verbatim>\<open>Nums = [0, {/S: /r}, 4, {/S: /D}]\<close>, \<^verbatim>\<open>index2label\<close> gives
  \<open>i\<close> for index 0, \<open>1\<close> for index 4 and \<open>2\<close> for index 5.
\<close>

theorem index2label_greatest_key:
  "(map_of (root_object rd) ''/PageLabels'' = Some (DictionaryObject page_labels)
    \<and> map_of page_labels ''/Nums'' = Some (ArrayObject (spec_nums_of entries))
    \<and> sorted (map fst entries)
    \<and> (\<forall>e\<in>set entries. get_object (objects rd) (snd e) = Inr (r (snd e)))
    \<longrightarrow>
      (case filter (\<lambda>e. fst e \<le> index) entries of
         [] \<Rightarrow> index2label fmt rd index = Inr (str_int (index + 1))
       | t # ts \<Rightarrow>
           last (t # ts) \<in> set entries \<and> fst (last (t # ts)) \<le> index
           \<and> (\<forall>e'\<in>set entries. fst e' \<le> index \<longrightarrow> fst e' \<le> fst (last (t # ts)))
           \<and> index2label fmt rd index
               = render_label fmt index (fst (last (t # ts))) (r (snd (last (t # ts))))))
   \<and> index2label fmt example_reader 0 = Inr ''i''
   \<and> index2label fmt example_reader 4 = Inr ''1''
   \<and> index2label fmt example_reader 5 = Inr ''2''"
proof (intro conjI impI)
  assume a: "map_of (root_object rd) ''/PageLabels'' = Some (DictionaryObject page_labels)
    \<and> map_of page_labels ''/Nums'' = Some (ArrayObject (spec_nums_of entries))
    \<and> sorted (map fst entries)
    \<and> (\<forall>e\<in>set entries. get_object (objects rd) (snd e) = Inr (r (snd e)))"
  then have pl: "map_of (root_object rd) ''/PageLabels'' = Some (DictionaryObject page_labels)"
    and nums: "map_of page_labels ''/Nums'' = Some (ArrayObject (spec_nums_of entries))"
    and srt: "sorted (map fst entries)"
    and res: "\<forall>e\<in>set entries. get_object (objects rd) (snd e) = Inr (r (snd e))"
    by simp_all
  note loop = index2label_loop_sorted [OF srt res, of index]
  show "case filter (\<lambda>e. fst e \<le> index) entries of
         [] \<Rightarrow> index2label fmt rd index = Inr (str_int (index + 1))
       | t # ts \<Rightarrow>
           last (t # ts) \<in> set entries \<and> fst (last (t # ts)) \<le> index
           \<and> (\<forall>e'\<in>set entries. fst e' \<le> index \<longrightarrow> fst e' \<le> fst (last (t # ts)))
           \<and> index2label fmt rd index
               = render_label fmt index (fst (last (t # ts))) (r (snd (last (t # ts))))"
  proof (cases "filter (\<lambda>e. fst e \<le> index) entries")
    case Nil
    then show ?thesis
      using loop by (simp add: index2label_def dict_getitem_def get_object_def pl nums)
  next
    case (Cons t ts)
    have lab: "index2label fmt rd index
        = render_label fmt index (fst (last (t # ts))) (r (snd (last (t # ts))))"
      using loop by (simp add: Cons index2label_def dict_getitem_def get_object_def pl nums)
    show ?thesis
      using last_filter_greatest [OF srt Cons] lab by (simp add: Cons)
  qed
next
  show "index2label fmt example_reader 0 = Inr ''i''" by code_simp
  show "index2label fmt example_reader 4 = Inr ''1''" by code_simp
  show "index2label fmt example_reader 5 = Inr ''2''" by code_simp
qed

theorem index2label_greatest_key_witness:
  "map_of (root_object example_reader) ''/PageLabels''
     = Some (DictionaryObject [(''/Nums'', ArrayObject (spec_nums_of
         [(0, DictionaryObject [(''/S'', NameObject ''/r'')]),
          (4, DictionaryObject [(''/S'', NameObject ''/D'')])]))])
   \<and> sorted (map fst [(0::int, DictionaryObject [(''/S'', NameObject ''/r'')]),
          (4, DictionaryObject [(''/S'', NameObject ''/D'')])])
   \<and> index2label (\<lambda>p. []) example_reader 2
       = render_label (\<lambda>p. []) 2 0 (DictionaryObject [(''/S'', NameObject ''/r'')])
   \<and> render_label (\<lambda>p. []) 2 0 (DictionaryObject [(''/S'', NameObject ''/r'')]) = Inr ''iii''"
proof -
  have r: "render_label (\<lambda>p. []) 2 0 (DictionaryObject [(''/S'', NameObject ''/r'')]) = Inr ''iii''"
    by code_simp
  show ?thesis
    using index2label_greatest_key [where rd = example_reader
      and page_labels = "[(''/Nums'', ArrayObject (spec_nums_of
         [(0, DictionaryObject [(''/S'', NameObject ''/r'')]),
          (4, DictionaryObject [(''/S'', NameObject ''/D'')])]))]"
      and entries = "[(0, DictionaryObject [(''/S'', NameObject ''/r'')]),
          (4, DictionaryObject [(''/S'', NameObject ''/D'')])]"
      and r = "\<lambda>v. v" and index = 2 and fmt = "\<lambda>p. []"] r
    by (simp add: example_reader_def get_object_def)
qed

text \<open>
  Claim C10. When the given key is not an element of the Nums array,
  \<^verbatim>\<open>nums_clear_range\<close> deletes every entry from the start of the array up to, and not
  including, the first entry whose key is at least the upper bound; it neither leaves
  the array as it was nor raises.
\<close>

theorem nums_clear_range_key_absent:
  "NumberObject key \<notin> set (spec_nums_of entries) \<Longrightarrow>
     nums_clear_range key page_index_to (spec_nums_of entries)
       = Inr (spec_nums_of (dropWhile (\<lambda>e. fst e < page_index_to) entries))"
  by (rule nums_clear_range_absent)

theorem nums_clear_range_key_absent_witness:
  "NumberObject 2 \<notin> set (spec_nums_of [(0, NullObject), (4, NameObject ''x''), (7, NullObject)])
   \<and> nums_clear_range 2 5 [NumberObject 0, NullObject, NumberObject 4, NameObject ''x'', NumberObject 7, NullObject]
       = Inr [NumberObject 7, NullObject]"
  using nums_clear_range_key_absent [where key = 2
    and entries = "[(0, NullObject), (4, NameObject ''x''), (7, NullObject)]" and page_index_to = 5]
  by simp

section \<open>Properties of filters.py: the PNG predictor\<close>

declare png_rows.simps [simp del] tiff_rows.simps [simp del]

lemma png_rows_skips_other_filter_types:
  assumes "i < length bs" "0 < row_size" "1 < unat (bs ! i)"
  shows "png_rows bs row_size colors i output = png_rows bs row_size colors (i + row_size) output"
  using assms by (subst png_rows.simps) (simp add: Let_def)

lemma png_rows_sub_row:
  assumes "i < length bs" "0 < row_size" "unat (bs ! i) = 1"
    "0 \<le> colors" "colors < int (length (slice bs (i + 1) (i + row_size)))"
  shows "png_rows bs row_size colors i output = Inl TypeError"
  using assms by (subst png_rows.simps) (simp add: Let_def bytes_sub_loop_def)

text \<open>
  Claim C2. The claim asks that a row of a PNG predictor whose filter type is Up, Average
  or Paeth makes the decoding fail, and that the types None and Sub are decoded. The
  source has no branch for the types above 1: such a row is left out of the output and
  nothing is raised (first three equations). A Sub row with more bytes than \<open>colors\<close>
  raises TypeError, since the row is a \<open>bytes\<close> slice (last equation).
\<close>

theorem decode_predictor_up_row_dropped:
  "decode_predictor [2, 10, 20, 0, 1, 2] 12 2 1 8 = Inr [1, 2]
   \<and> decode_predictor [3, 10, 20] 12 2 1 8 = Inr []
   \<and> decode_predictor [4, 10, 20] 12 2 1 8 = Inr []
   \<and> decode_predictor [1, 10, 20] 12 2 1 8 = Inl TypeError"
  by code_simp

section \<open>Properties of filters.py: decode_stream_data\<close>









text \<open>
  A stream without a \<open>/DecodeParms\<close> entry never reaches the loop: the default \<open>{}\<close> of
  \<^verbatim>\<open>stream.get\<close> is a plain dict, which the type checks refuse.
\<close>

lemma decode_stream_data_without_DecodeParms:
  "map_of (stream_dict st) ''/DecodeParms'' = None \<Longrightarrow> stream_filters objs st = Inr fs \<Longrightarrow>
     decode_stream_data objs c st = Inl (PdfReadError ''Unsupported DecodeParms type'')"
  by (simp add: decode_stream_data_def stream_decode_params_def)

section \<open>Properties of filters.py: LZWDecode\<close>












section \<open>Properties of the content-stream traversal\<close>

lemma show_text_font_not_set:
  "font mgr = None \<Longrightarrow>
     show_text env strip_rotated operands operator mgr bt_groups params
       = Inl (PdfReadError ''Font not set. No Tf operator in incoming pdf content stream.'')"
  by (simp add: show_text_def text_state_params_def)

lemma recurs_to_target_op_font_not_set:
  assumes "font mgr = None" "operator = ''Tj'' \<or> operator = ''TJ''" "operator \<noteq> end_target"
  shows "recurs_to_target_op env fonts strip_rotated ((operands, operator) # ops) mgr end_target
           bt_groups params
       = Inl (PdfReadError ''Font not set. No Tf operator in incoming pdf content stream.'')"
  using assms by (auto simp: plain_op_def show_text_font_not_set)

text \<open>
  Claim C1. The claim asks that \<open>q\<close>, three \<open>cm\<close> pushes and the matching \<open>Q\<close> leave the
  effective transform as it was before \<open>q\<close>, and that an unmatched \<open>Q\<close> does nothing.
  In the source the \<open>Q\<close> that ends a \<open>q\<close> block only leaves the loop of
  \<^verbatim>\<open>recurs_to_target_op\<close>: \<^verbatim>\<open>remove_q\<close> is not called and the three transforms stay
  (second equation: four maps, a translation by 30 where the first equation has the
  identity). An unmatched \<open>Q\<close> at the top level calls \<^verbatim>\<open>remove_q\<close>, which takes one map
  off whatever the depth of \<open>q\<close> is: from the initial stack it leaves the empty dict, on
  which \<^verbatim>\<open>effective_transform\<close> raises KeyError (third equation), and after a \<open>cm\<close> it
  takes that \<open>cm\<close> off (fourth equation).
\<close>

theorem q_cm_Q_keeps_the_transforms:
  "effective_transform spec_mult (TextStateManager_init :: (int, string) TextStateManager)
     = Inr [Number 1, Number 0, Number 0, Number 1, Number 0, Number 0]
   \<and> map_sum id (\<lambda>(mgr, bt_groups). (length (transform_stack mgr), effective_transform spec_mult mgr))
       (text_show_loop example_env [(''/F1'', ''Helvetica'')] True
          [([], ''q''),
           ([Number 1, Number 0, Number 0, Number 1, Number 10, Number 0], ''cm''),
           ([Number 1, Number 0, Number 0, Number 1, Number 10, Number 0], ''cm''),
           ([Number 1, Number 0, Number 0, Number 1, Number 10, Number 0], ''cm''),
           ([], ''Q'')]
          TextStateManager_init [])
     = Inr (4, Inr [Number 1, Number 0, Number 0, Number 1, Number 30, Number 0])
   \<and> map_sum id (\<lambda>(mgr, bt_groups). (transform_stack mgr, effective_transform spec_mult mgr))
       (text_show_loop example_env [(''/F1'', ''Helvetica'')] True
          [([], ''Q'')] TextStateManager_init [])
     = Inr ([[]], Inl KeyError)
   \<and> map_sum id (\<lambda>(mgr, bt_groups). effective_transform spec_mult mgr)
       (text_show_loop example_env [(''/F1'', ''Helvetica'')] True
          [([Number 1, Number 0, Number 0, Number 1, Number 10, Number 0], ''cm''), ([], ''Q'')]
          TextStateManager_init [])
     = Inr (Inr [Number 1, Number 0, Number 0, Number 1, Number 0, Number 0])"
  by code_simp

text \<open>
  Claim C8. A text-show operator before any \<open>Tf\<close> raises the font-not-set error (third
  equation, and the two lemmas above for every such operator). The claim also asks that
  the traversal never raises for unbalanced \<open>q\<close>/\<open>Q\<close>: an unmatched \<open>Q\<close> in front of a
  text object with its font set makes \<^verbatim>\<open>text_show_operations\<close> raise KeyError (first
  equation), where the same stream without the \<open>Q\<close> gives its text (second equation).
\<close>

theorem unmatched_Q_makes_text_show_raise:
  "text_show_operations example_env [(''/F1'', ''Helvetica'')] True
     [([], ''Q''), ([], ''BT''), ([Name ''/F1'', Number 12], ''Tf''), ([Str ''x''], ''Tj''), ([], ''ET'')]
     = Inl KeyError
   \<and> text_show_operations example_env [(''/F1'', ''Helvetica'')] True
     [([], ''BT''), ([Name ''/F1'', Number 12], ''Tf''), ([Str ''x''], ''Tj''), ([], ''ET'')]
     = Inr [\<lparr>bt_tx = Number 0, bt_ty = Number 0, bt_font_size = Number 12,
             bt_font_height = Number 12, bt_text = Str ''x'', bt_displaced_tx = Number 0,
             flip_sort = 1\<rparr>]
   \<and> text_show_operations example_env [(''/F1'', ''Helvetica'')] True
     [([], ''BT''), ([Str ''x''], ''Tj''), ([], ''ET'')]
     = Inl (PdfReadError ''Font not set. No Tf operator in incoming pdf content stream.'')"
  by code_simp

section \<open>Properties of get_inherited\<close>










section \<open>Properties of _find_startxref_pos\<close>

lemma slice_sublist: "sublist (slice bs a b) bs"
proof -
  have "sublist (take (b - a) (drop a bs)) (drop a bs)" by (rule sublist_take)
  moreover have "sublist (drop a bs) bs" by (rule sublist_drop)
  ultimately show ?thesis
    unfolding slice_def by (rule sublist_order.order_trans)
qed

lemma slice_extend_left:
  assumes "Suc n \<le> k"
  shows "slice bs n (n + 1) @ slice bs (Suc n) k = slice bs n k"
proof -
  have "take 1 (drop n bs) @ take (k - Suc n) (drop 1 (drop n bs)) = take (Suc (k - Suc n)) (drop n bs)"
    by (cases "drop n bs") simp_all
  moreover have "Suc (k - Suc n) = k - n" using assms by simp
  ultimately show ?thesis by (simp add: slice_def)
qed

lemma length_slice_one: "length (slice bs n (n + 1)) \<le> 1"
  by (simp add: slice_def)

lemma read_previous_line_loop_slice:
  assumes "rev line = slice bs n k" "n \<le> k"
    and "read_previous_line_loop bs n line p = (l, p')"
  shows "\<exists>a b. l = slice bs a b"
  using assms
proof (induction n arbitrary: line p k)
  case 0
  then have "l = slice bs 0 k" by simp
  then show ?case by blast
next
  case (Suc n)
  let ?char = "slice bs n (n + 1)"
  show ?case
  proof (cases "?char = [13] \<or> ?char = [10]")
    case True
    show ?thesis
    proof (cases "line = []")
      case True
      have "read_previous_line_loop bs n [] (n + length ?char) = (l, p')"
        using Suc.prems(3) \<open>?char = [13] \<or> ?char = [10]\<close> True by (simp add: Let_def)
      moreover have "rev [] = slice bs n n" by (simp add: slice_def)
      ultimately show ?thesis using Suc.IH [of "[]" n] by blast
    next
      case False
      then have "l = rev line"
        using Suc.prems(3) True by (simp add: Let_def)
      then show ?thesis using Suc.prems(1) by blast
    qed
  next
    case False
    have rec: "read_previous_line_loop bs n (line @ ?char) (n + length ?char) = (l, p')"
      using Suc.prems(3) False by (simp add: Let_def)
    have rc: "rev ?char = ?char"
      using length_slice_one [of bs n] by (cases ?char) auto
    have "rev (line @ ?char) = ?char @ slice bs (Suc n) k"
      using Suc.prems(1) rc by simp
    also have "\<dots> = slice bs n k"
      using Suc.prems(2) by (rule slice_extend_left)
    finally have inv: "rev (line @ ?char) = slice bs n k" .
    have "n \<le> k" using Suc.prems(2) by simp
    from Suc.IH [OF inv this rec] show ?thesis .
  qed
qed

lemma read_previous_line_sublist:
  assumes "read_previous_line s = (line, s')"
  shows "sublist line (content s) \<and> content s' = content s"
proof -
  obtain l p where lp: "read_previous_line_loop (content s) (position s) [] (position s) = (l, p)"
    by (cases "read_previous_line_loop (content s) (position s) [] (position s)")
  have "rev [] = slice (content s) (position s) (position s)" by (simp add: slice_def)
  from read_previous_line_loop_slice [OF this _ lp] obtain a b where "l = slice (content s) a b"
    by auto
  then have "sublist l (content s)" by (simp add: slice_sublist)
  then show ?thesis using assms lp by (auto simp: read_previous_line_def)
qed

lemma find_startxref_loop_needs_keyword:
  assumes "find_startxref_loop line s = Some y"
  shows "sublist startxref line \<or> sublist startxref (content s)"
proof (rule find_startxref_loop.raw_induct
    [where P = "\<lambda>line s y. sublist startxref line \<or> sublist startxref (content s)", OF _ assms])
  fix rec line s y
  assume IH: "\<And>line' s' y'. rec line' s' = Some y' \<Longrightarrow>
      sublist startxref line' \<or> sublist startxref (content s')"
    and body: "(if \<not> sublist startxref line
      then case read_previous_line s of (line', s') \<Rightarrow> rec line' s'
      else Some s) = Some y"
  show "sublist startxref line \<or> sublist startxref (content s)"
  proof (cases "sublist startxref line")
    case True
    then show ?thesis by simp
  next
    case False
    obtain line' s' where r: "read_previous_line s = (line', s')"
      by (cases "read_previous_line s")
    then have "rec line' s' = Some y" using body False by simp
    from IH [OF this] have "sublist startxref line' \<or> sublist startxref (content s')" .
    moreover have "sublist line' (content s)" "content s' = content s"
      using read_previous_line_sublist [OF r] by simp_all
    ultimately show ?thesis
      using sublist_order.order_trans by auto
  qed
qed

lemma find_startxref_pos_never_returns:
  assumes "\<not> sublist startxref (content s)"
  shows "find_startxref_pos to_int s = None"
proof -
  have "find_startxref_loop [] (seek_end_1024 s) = None"
  proof (rule ccontr)
    assume "find_startxref_loop [] (seek_end_1024 s) \<noteq> None"
    then obtain y where "find_startxref_loop [] (seek_end_1024 s) = Some y" by auto
    from find_startxref_loop_needs_keyword [OF this] assms show False
      by (simp add: seek_end_1024_def startxref_def)
  qed
  then show ?thesis by (simp add: find_startxref_pos_def)
qed

text \<open>
  Claim C4. The claim asks for a typed error, and for termination, on every input that
  lacks the \<open>startxref\<close> keyword. In the source the loop
  \<^verbatim>\<open>while b"startxref" not in line\<close> has no exit at the start of the stream, where
  \<^verbatim>\<open>read_previous_line\<close> keeps returning the same line: on a stream without the keyword
  (lemma \<open>find_startxref_pos_never_returns\<close>; here the bytes of
  \<^verbatim>\<open>b"%PDF-1.4\n%%EOF\n"\<close>) the function never returns, whatever \<open>int\<close> would do.
\<close>

theorem find_startxref_pos_hangs_without_startxref:
  "\<not> sublist startxref pdf_without_startxref
   \<and> find_startxref_pos (\<lambda>line. None) \<lparr>content = pdf_without_startxref, position = 15\<rparr> = None
   \<and> find_startxref_pos (\<lambda>line. Some 0) \<lparr>content = pdf_without_startxref, position = 15\<rparr> = None"
proof -
  have n: "\<not> sublist startxref pdf_without_startxref"
    by code_simp
  then show ?thesis
    using find_startxref_pos_never_returns
      [of "\<lparr>content = pdf_without_startxref, position = 15\<rparr>"]
    by simp
qed

end
